theory Spec2Isabelle
  imports Main
begin

section \<open>Warm transfer orchestration: the service and its collaborators\<close>

text \<open>
  The development embeds \<^verbatim>\<open>WarmTransferService\<close> (app/services/transfer_service.py)
  together with the parts of \<^verbatim>\<open>LiveKitService\<close> (app/services/livekit_service.py) and
  \<^verbatim>\<open>AIService\<close> (app/services/ai_service.py) that it calls.  Every method is a function
  from the state of the service to a result and the state afterwards; an exception is a
  result \<open>Inl e\<close>, and the state returned with it is the state the exception leaves behind.

  What the outside world decides is a parameter of each call (record \<open>env\<close>): the values
  of \<^verbatim>\<open>uuid.uuid4()\<close> and \<^verbatim>\<open>datetime.utcnow()\<close>, and whether a request to the LiveKit
  server or to OpenAI answers or raises.  The SQL store is a triple of tables keyed by
  the unique columns that the queries filter on; its sessions are taken not to raise.
  The notification calls (\<^verbatim>\<open>ConnectionManager\<close>) catch their own exceptions and write
  only to the manager's connection tables, which nothing below reads, so they are left out.
\<close>

subsection \<open>Exceptions\<close>

text \<open>
  The text of every message raised by the three services, as data.  The constructor
  names the f-string: \<open>CallNotFound c\<close> is \<^verbatim>\<open>f"Call {c} not found"\<close>,
  \<open>TargetAgentNotAvailable a\<close> is \<^verbatim>\<open>f"Target agent {a} is not available"\<close>,
  \<open>TargetAgentAtCapacity a\<close> is \<^verbatim>\<open>f"Target agent {a} is at capacity"\<close>,
  \<open>TransferNotFound t\<close> is \<^verbatim>\<open>f"Transfer {t} not found"\<close>.
\<close>

datatype message =
    CallNotFound string
  | SourceAgentNotFound string
  | TargetAgentNotFound string
  | TargetAgentNotAvailable string
  | TargetAgentAtCapacity string
  | TransferNotFound string

text \<open>
  \<open>Wrapped p e\<close> is \<^verbatim>\<open>Exception(f"{p}: {e}")\<close>, the way every method re-raises what its
  \<^verbatim>\<open>except Exception as e\<close> clause caught.  \<open>TypeError\<close> is the one raised by
  subscripting a \<^verbatim>\<open>str\<close> with a \<^verbatim>\<open>str\<close>.  \<open>UpstreamError\<close> stands for whatever a client
  library call raised.  \<open>CancelledError\<close> is \<^verbatim>\<open>asyncio.CancelledError\<close>, which derives from
  \<^verbatim>\<open>BaseException\<close> and so passes through every \<^verbatim>\<open>except Exception\<close> clause.
\<close>

datatype exn =
    ValueError message
  | TypeError
  | KeyError string
  | UpstreamError
  | CancelledError
  | Exception message
  | Wrapped string exn

subsection \<open>The outside world\<close>

record env =
  uuid_transfer :: string
  uuid_room_suffix :: string
  utcnow :: int
  openai_reply :: "string option"
  token_ok :: bool
  create_room_ok :: bool
  delete_room_ok :: bool
  remove_participant_ok :: bool
  send_data_ok :: bool

text \<open>
  \<open>uuid_transfer\<close> is \<^verbatim>\<open>str(uuid.uuid4())\<close> of \<^verbatim>\<open>initiate_warm_transfer\<close>, \<open>uuid_room_suffix\<close>
  is \<^verbatim>\<open>uuid.uuid4().hex[:6]\<close> of \<^verbatim>\<open>create_transfer_room\<close>; \<open>openai_reply\<close> is the text
  \<^verbatim>\<open>_generate_openai\<close> returns, \<open>None\<close> when the request raises; \<open>token_ok\<close> says that
  \<^verbatim>\<open>to_jwt()\<close> returns; the other flags say that the LiveKit request of that name returns.
\<close>

subsection \<open>AIService\<close>

text \<open>
  The value bound to \<^verbatim>\<open>ai_summary\<close>.  The class body of \<^verbatim>\<open>AIService\<close> defines
  \<^verbatim>\<open>generate_call_summary\<close> twice (lines 150 and 635); the later definition replaces the
  earlier one in the class namespace, so the method that \<^verbatim>\<open>self.ai.generate_call_summary\<close>
  calls is the one of line 635, which returns a \<^verbatim>\<open>str\<close>.  The earlier one returned a
  \<^verbatim>\<open>dict\<close> with the keys \<^verbatim>\<open>summary\<close> and \<^verbatim>\<open>sentiment\<close>, which is the shape the orchestrator
  subscripts.  Both shapes are kept, since the working set is typed \<^verbatim>\<open>Dict[str, dict]\<close>
  and can hold either.
\<close>

datatype py_summary =
    SummaryStr string
  | SummaryDict string string

text \<open>\<^verbatim>\<open>ai_summary[key]\<close>: a \<^verbatim>\<open>str\<close> subscripted with a \<^verbatim>\<open>str\<close> raises \<^verbatim>\<open>TypeError\<close>.\<close>

fun summary_item :: "py_summary \<Rightarrow> string \<Rightarrow> exn + string" where
  "summary_item (SummaryStr s) key = Inl TypeError"
| "summary_item (SummaryDict summary sentiment) key =
     (if key = ''summary'' then Inr summary
      else if key = ''sentiment'' then Inr sentiment
      else Inl (KeyError key))"

text \<open>
  \<^verbatim>\<open>_get_enhanced_fallback_summary(call_id, context)\<close> at the default context
  \<^verbatim>\<open>"Customer support call"\<close>, which is the only one the orchestrator uses: the context
  holds no \<^verbatim>\<open>"transcript:"\<close>, so the issue type is \<^verbatim>\<open>"customer service inquiry"\<close>.
\<close>

definition get_enhanced_fallback_summary :: string where
  "get_enhanced_fallback_summary =
     ''The customer contacted us regarding customer service inquiry. '' @
     ''I've gathered their account information and initial details about their concern. '' @
     ''The customer appears cooperative and is seeking resolution today. '' @
     ''Please continue with advanced troubleshooting and provide them with a definitive solution. '' @
     ''All account verification has been completed.''"

text \<open>
  \<^verbatim>\<open>generate_call_summary\<close> (line 635).  The first argument says whether
  \<^verbatim>\<open>self.providers.get("openai")\<close> is set.  Every exception ends in the fallback: the method
  never raises and always returns a \<^verbatim>\<open>str\<close>.
\<close>

definition generate_call_summary :: "bool \<Rightarrow> env \<Rightarrow> py_summary" where
  "generate_call_summary has_openai env =
     (if has_openai then
        (case openai_reply env of
           Some response \<Rightarrow> SummaryStr response
         | None \<Rightarrow> SummaryStr get_enhanced_fallback_summary)
      else SummaryStr get_enhanced_fallback_summary)"

text \<open>
  \<^verbatim>\<open>generate_agent_context\<close> (line 203) with the default provider \<^verbatim>\<open>"openai"\<close>.
  \<^verbatim>\<open>analyze_sentiment\<close> (the definition of line 585) is local and does not raise;
  \<^verbatim>\<open>self.providers["openai"]\<close> raises \<^verbatim>\<open>KeyError\<close> when no OpenAI client is configured.
  The result is the \<^verbatim>\<open>context\<close> entry of the returned dict.
\<close>

definition generate_agent_context :: "bool \<Rightarrow> env \<Rightarrow> exn + string" where
  "generate_agent_context has_openai env =
     (if has_openai then
        (case openai_reply env of
           Some response \<Rightarrow> Inr response
         | None \<Rightarrow> Inl (Wrapped ''Context generation failed'' UpstreamError))
      else Inl (Wrapped ''Context generation failed'' (KeyError ''openai'')))"

subsection \<open>LiveKitService\<close>

record room_participant =
  rp_name :: string
  rp_role :: string
  rp_joined_at :: int

record room =
  room_created_at :: int
  room_max_participants :: nat
  room_participants :: "string \<rightharpoonup> room_participant"

record session =
  session_room_name :: string
  session_joined_at :: int
  session_role :: string

record lk_transfer =
  lk_transfer_room :: string
  lk_original_room :: string
  agent_a :: string
  agent_b :: string
  caller :: string
  lk_status :: string
  lk_created_at :: int
  lk_completed_at :: "int option"
  lk_error :: "exn option"

datatype api_request =
    CreateRoomRequest string
  | DeleteRoomRequest string
  | RoomParticipantIdentity string string
  | SendDataRequest string

datatype api_outcome = Returned | Raised | Aborted

text \<open>
  \<open>api_log\<close> lists the requests the service has sent to the LiveKit server, oldest first,
  each with what the client call did: it returned, it raised, or the task was cancelled
  while it waited for the answer.
\<close>

record livekit_service =
  active_rooms :: "string \<rightharpoonup> room"
  lk_active_transfers :: "string \<rightharpoonup> lk_transfer"
  participant_sessions :: "string \<rightharpoonup> session"
  api_log :: "(api_request \<times> api_outcome) list"

datatype access_token = AccessToken (token_room: string) (token_identity: string) (token_name: string)

text \<open>\<^verbatim>\<open>generate_access_token\<close>: a grant to join \<open>room_name\<close> under \<open>participant_identity\<close>.\<close>

definition generate_access_token :: "string \<Rightarrow> string \<Rightarrow> string option \<Rightarrow> access_token" where
  "generate_access_token room_name participant_identity participant_name =
     AccessToken room_name participant_identity
       (case participant_name of None \<Rightarrow> participant_identity | Some n \<Rightarrow> n)"

definition create_room :: "livekit_service \<Rightarrow> env \<Rightarrow> string \<Rightarrow> nat \<Rightarrow> (exn + string) \<times> livekit_service" where
  "create_room lk env room_name max_participants =
     (if create_room_ok env then
        (Inr room_name,
         lk\<lparr>active_rooms := (active_rooms lk)(room_name \<mapsto>
               \<lparr>room_created_at = utcnow env, room_max_participants = max_participants,
                room_participants = Map.empty\<rparr>),
            api_log := api_log lk @ [(CreateRoomRequest room_name, Returned)]\<rparr>)
      else
        (Inl (Wrapped ''Failed to create room'' UpstreamError),
         lk\<lparr>api_log := api_log lk @ [(CreateRoomRequest room_name, Raised)]\<rparr>))"

definition delete_room :: "livekit_service \<Rightarrow> env \<Rightarrow> string \<Rightarrow> bool \<times> livekit_service" where
  "delete_room lk env room_name =
     (if delete_room_ok env then
        (True,
         lk\<lparr>active_rooms := (active_rooms lk)(room_name := None),
            api_log := api_log lk @ [(DeleteRoomRequest room_name, Returned)]\<rparr>)
      else
        (False, lk\<lparr>api_log := api_log lk @ [(DeleteRoomRequest room_name, Raised)]\<rparr>))"

record access_info =
  access_token :: access_token
  room_name :: string
  participant_identity :: string
  info_role :: string

definition add_participant_to_room ::
  "livekit_service \<Rightarrow> env \<Rightarrow> string \<Rightarrow> string \<Rightarrow> string option \<Rightarrow> string
     \<Rightarrow> (exn + access_info) \<times> livekit_service" where
  "add_participant_to_room lk env room participant name role =
     (if \<not> token_ok env then (Inl (Wrapped ''Failed to add participant'' UpstreamError), lk)
      else
        let token = generate_access_token room participant name;
            rooms = (case active_rooms lk room of
                       None \<Rightarrow> active_rooms lk
                     | Some r \<Rightarrow> (active_rooms lk)(room \<mapsto>
                         r\<lparr>room_participants := (room_participants r)(participant \<mapsto>
                              \<lparr>rp_name = (case name of None \<Rightarrow> participant | Some n \<Rightarrow> n),
                               rp_role = role, rp_joined_at = utcnow env\<rparr>)\<rparr>))
        in (Inr \<lparr>access_token = token, room_name = room, participant_identity = participant,
                 info_role = role\<rparr>,
            lk\<lparr>active_rooms := rooms,
               participant_sessions := (participant_sessions lk)(participant \<mapsto>
                 \<lparr>session_room_name = room, session_joined_at = utcnow env,
                  session_role = role\<rparr>)\<rparr>))"

definition remove_participant_from_room ::
  "livekit_service \<Rightarrow> env \<Rightarrow> string \<Rightarrow> string \<Rightarrow> bool \<times> livekit_service" where
  "remove_participant_from_room lk env room participant =
     (if remove_participant_ok env then
        (True,
         lk\<lparr>active_rooms := (case active_rooms lk room of
                 None \<Rightarrow> active_rooms lk
               | Some r \<Rightarrow> (active_rooms lk)(room \<mapsto>
                   r\<lparr>room_participants := (room_participants r)(participant := None)\<rparr>)),
            participant_sessions := (participant_sessions lk)(participant := None),
            api_log := api_log lk @ [(RoomParticipantIdentity room participant, Returned)]\<rparr>)
      else
        (False,
         lk\<lparr>api_log := api_log lk @ [(RoomParticipantIdentity room participant, Raised)]\<rparr>))"

definition create_transfer_room ::
  "livekit_service \<Rightarrow> env \<Rightarrow> string \<Rightarrow> string \<Rightarrow> string \<Rightarrow> string \<Rightarrow> string
     \<Rightarrow> (exn + string) \<times> livekit_service" where
  "create_transfer_room lk env original agent_a_identity agent_b_identity caller_identity tid =
     (let transfer_room_name = ''transfer_'' @ tid @ ''_'' @ uuid_room_suffix env in
      case create_room lk env transfer_room_name 3 of
        (Inl e, lk1) \<Rightarrow> (Inl (Wrapped ''Failed to create transfer room'' e), lk1)
      | (Inr _, lk1) \<Rightarrow>
          (Inr transfer_room_name,
           lk1\<lparr>lk_active_transfers := (lk_active_transfers lk1)(tid \<mapsto>
                 \<lparr>lk_transfer_room = transfer_room_name, lk_original_room = original,
                  agent_a = agent_a_identity, agent_b = agent_b_identity,
                  caller = caller_identity, lk_status = ''initiated'',
                  lk_created_at = utcnow env, lk_completed_at = None, lk_error = None\<rparr>)\<rparr>))"

definition send_data_to_room :: "livekit_service \<Rightarrow> env \<Rightarrow> string \<Rightarrow> (exn + unit) \<times> livekit_service" where
  "send_data_to_room lk env room =
     (if send_data_ok env then
        (Inr (), lk\<lparr>api_log := api_log lk @ [(SendDataRequest room, Returned)]\<rparr>)
      else
        (Inl (Wrapped ''Failed to send data'' UpstreamError),
         lk\<lparr>api_log := api_log lk @ [(SendDataRequest room, Raised)]\<rparr>))"

text \<open>
  \<^verbatim>\<open>complete_warm_transfer\<close>.  The unknown transfer is raised before the \<^verbatim>\<open>try\<close>.  The
  results of removing agent A, of adding agent B (the dict with the access token) and of
  deleting the transfer room are not bound to anything in the source.
\<close>

definition complete_warm_transfer ::
  "livekit_service \<Rightarrow> env \<Rightarrow> string \<Rightarrow> bool \<Rightarrow> (exn + lk_transfer) \<times> livekit_service" where
  "complete_warm_transfer lk env tid success =
     (case lk_active_transfers lk tid of
        None \<Rightarrow> (Inl (Exception (TransferNotFound tid)), lk)
      | Some t \<Rightarrow>
          if success then
            (case remove_participant_from_room lk env (lk_original_room t) (agent_a t) of
               (_, lk1) \<Rightarrow>
            (case add_participant_to_room lk1 env (lk_original_room t) (agent_b t) None ''agent'' of
               (Inl e, lk2) \<Rightarrow>
                 (Inl (Wrapped ''Failed to complete transfer'' e),
                  lk2\<lparr>lk_active_transfers := (lk_active_transfers lk2)(tid \<mapsto>
                        t\<lparr>lk_status := ''error'', lk_error := Some e\<rparr>)\<rparr>)
             | (Inr _, lk2) \<Rightarrow>
            (case delete_room lk2 env (lk_transfer_room t) of
               (_, lk3) \<Rightarrow>
                 (let t' = t\<lparr>lk_status := ''completed'', lk_completed_at := Some (utcnow env)\<rparr>
                  in (Inr t', lk3\<lparr>lk_active_transfers := (lk_active_transfers lk3)(tid \<mapsto> t')\<rparr>)))))
          else
            (let t' = t\<lparr>lk_status := ''failed'', lk_completed_at := Some (utcnow env)\<rparr>
             in (Inr t', lk\<lparr>lk_active_transfers := (lk_active_transfers lk)(tid \<mapsto> t')\<rparr>)))"

subsection \<open>The SQL store\<close>

text \<open>
  The columns of \<^verbatim>\<open>Call\<close>, \<^verbatim>\<open>Agent\<close> and \<^verbatim>\<open>Transfer\<close> that the orchestrator reads or
  writes.  Each table is keyed by its unique string column (\<^verbatim>\<open>call_id\<close>, \<^verbatim>\<open>agent_id\<close>,
  \<^verbatim>\<open>transfer_id\<close>), so that \<^verbatim>\<open>query(...).filter(... == k).first()\<close> is a lookup.
\<close>

record call =
  call_pk :: int
  call_room_name :: string
  caller_info :: "(string \<rightharpoonup> string) option"

record agent =
  agent_pk :: int
  is_available :: bool
  agent_status :: string
  current_calls :: int
  max_concurrent_calls :: int
  successful_transfers :: int
  total_calls_handled :: int

record db_transfer =
  db_call_id :: int
  db_source_agent_id :: int
  db_target_agent_id :: int
  db_transfer_type :: string
  db_reason :: "string option"
  db_transfer_room_name :: string
  db_status :: string
  db_ai_summary :: string
  db_sentiment_analysis :: string
  db_ai_context :: "string option"
  db_completed_at :: "int option"
  db_duration_seconds :: "int option"
  db_was_successful :: "bool option"
  db_agent_feedback :: "string option"

subsection \<open>WarmTransferService: state\<close>

record participant =
  joined_at :: int
  role :: string

text \<open>
  One entry of \<^verbatim>\<open>self.active_transfers\<close>.  The keys \<^verbatim>\<open>participants\<close>, \<^verbatim>\<open>completed_at\<close> and
  \<^verbatim>\<open>cancelled_at\<close> are absent from the dict that \<^verbatim>\<open>initiate_warm_transfer\<close> stores and are
  added later, hence the options.
\<close>

record transfer =
  transfer_id :: string
  call_id :: string
  source_agent_id :: string
  target_agent_id :: string
  transfer_room :: string
  original_room :: string
  status :: string
  ai_summary :: py_summary
  created_at :: int
  phase :: string
  participants :: "(string \<rightharpoonup> participant) option"
  completed_at :: "int option"
  cancelled_at :: "int option"

text \<open>
  An asyncio task is known by the coroutine it runs: \<open>TimeoutTask t\<close> runs
  \<^verbatim>\<open>_handle_transfer_timeout(t)\<close>.  A request handler runs in a task of its own, which is none
  of these.
\<close>

datatype task = TimeoutTask string

record service =
  active_transfers :: "string \<rightharpoonup> transfer"
  transfer_timeouts :: "string \<rightharpoonup> task"
  livekit :: livekit_service
  providers_openai :: bool
  db_calls :: "string \<rightharpoonup> call"
  db_agents :: "string \<rightharpoonup> agent"
  db_transfers :: "string \<rightharpoonup> db_transfer"

subsection \<open>initiate_warm_transfer\<close>

text \<open>Lines 50 to 67: the three lookups, then the checks in the order of the source.\<close>

definition initiate_validate ::
  "service \<Rightarrow> string \<Rightarrow> string \<Rightarrow> string \<Rightarrow> exn + (call \<times> agent \<times> agent)" where
  "initiate_validate st cid source target =
     (case db_calls st cid of
        None \<Rightarrow> Inl (ValueError (CallNotFound cid))
      | Some c \<Rightarrow>
     (case db_agents st source of
        None \<Rightarrow> Inl (ValueError (SourceAgentNotFound source))
      | Some source_agent \<Rightarrow>
     (case db_agents st target of
        None \<Rightarrow> Inl (ValueError (TargetAgentNotFound target))
      | Some target_agent \<Rightarrow>
          if \<not> is_available target_agent \<or> agent_status target_agent \<noteq> ''online''
          then Inl (ValueError (TargetAgentNotAvailable target))
          else if current_calls target_agent \<ge> max_concurrent_calls target_agent
          then Inl (ValueError (TargetAgentAtCapacity target))
          else Inr (c, source_agent, target_agent))))"

text \<open>\<^verbatim>\<open>call.caller_info.get("identity", "caller") if call.caller_info else "caller"\<close>\<close>

definition caller_identity :: "call \<Rightarrow> string" where
  "caller_identity c =
     (case caller_info c of
        None \<Rightarrow> ''caller''
      | Some info \<Rightarrow> (case info ''identity'' of None \<Rightarrow> ''caller'' | Some i \<Rightarrow> i))"

record initiate_result =
  ir_transfer_id :: string
  ir_status :: string
  ir_transfer_room :: string
  ir_ai_summary :: py_summary

text \<open>
  Lines 48 to 137, the body of the \<^verbatim>\<open>try\<close>.  The \<^verbatim>\<open>Transfer(...)\<close> row is built from
  \<^verbatim>\<open>ai_summary["summary"]\<close> and \<^verbatim>\<open>ai_summary["sentiment"]\<close> after the transfer room has been
  created and before anything is stored.
\<close>

definition initiate_try ::
  "service \<Rightarrow> env \<Rightarrow> string \<Rightarrow> string \<Rightarrow> string \<Rightarrow> string option
     \<Rightarrow> (exn + initiate_result) \<times> service" where
  "initiate_try st env cid source target reason =
     (let tid = uuid_transfer env in
      case initiate_validate st cid source target of
        Inl e \<Rightarrow> (Inl e, st)
      | Inr (c, source_agent, target_agent) \<Rightarrow>
          let summary = generate_call_summary (providers_openai st) env in
          (case create_transfer_room (livekit st) env (call_room_name c) source target
                  (caller_identity c) tid of
             (Inl e, lk) \<Rightarrow> (Inl e, st\<lparr>livekit := lk\<rparr>)
           | (Inr transfer_room_name, lk) \<Rightarrow>
          (case summary_item summary ''summary'' of
             Inl e \<Rightarrow> (Inl e, st\<lparr>livekit := lk\<rparr>)
           | Inr summary_text \<Rightarrow>
          (case summary_item summary ''sentiment'' of
             Inl e \<Rightarrow> (Inl e, st\<lparr>livekit := lk\<rparr>)
           | Inr sentiment \<Rightarrow>
               (Inr \<lparr>ir_transfer_id = tid, ir_status = ''initiated'',
                     ir_transfer_room = transfer_room_name, ir_ai_summary = summary\<rparr>,
                st\<lparr>livekit := lk,
                   db_transfers := (db_transfers st)(tid \<mapsto>
                     \<lparr>db_call_id = call_pk c, db_source_agent_id = agent_pk source_agent,
                      db_target_agent_id = agent_pk target_agent, db_transfer_type = ''warm'',
                      db_reason = reason, db_transfer_room_name = transfer_room_name,
                      db_status = ''initiated'', db_ai_summary = summary_text,
                      db_sentiment_analysis = sentiment, db_ai_context = None,
                      db_completed_at = None, db_duration_seconds = None,
                      db_was_successful = None, db_agent_feedback = None\<rparr>),
                   active_transfers := (active_transfers st)(tid \<mapsto>
                     \<lparr>transfer_id = tid, call_id = cid, source_agent_id = source,
                      target_agent_id = target, transfer_room = transfer_room_name,
                      original_room = call_room_name c, status = ''initiated'',
                      ai_summary = summary, created_at = utcnow env,
                      phase = ''waiting_for_agents'', participants = None,
                      completed_at = None, cancelled_at = None\<rparr>),
                   transfer_timeouts := (transfer_timeouts st)(tid \<mapsto> TimeoutTask tid)\<rparr>)))))"

text \<open>
  The method: whatever the body raises is caught (line 139), the entry under the new
  identifier is deleted from the working set if there is one, and the exception is
  re-raised as \<^verbatim>\<open>Exception(f"Transfer initiation failed: {e}")\<close>.
\<close>

definition initiate_warm_transfer ::
  "service \<Rightarrow> env \<Rightarrow> string \<Rightarrow> string \<Rightarrow> string \<Rightarrow> string option
     \<Rightarrow> (exn + initiate_result) \<times> service" where
  "initiate_warm_transfer st env cid source target reason =
     (case initiate_try st env cid source target reason of
        (Inl e, st1) \<Rightarrow>
          (Inl (Wrapped ''Transfer initiation failed'' e),
           st1\<lparr>active_transfers := (active_transfers st1)(uuid_transfer env := None)\<rparr>)
      | (Inr r, st1) \<Rightarrow> (Inr r, st1))"

subsection \<open>join_transfer_room\<close>

record join_result =
  jr_access_token :: access_token
  jr_room_name :: string
  jr_transfer_phase :: string
  jr_ai_summary :: "py_summary option"

text \<open>
  Lines 183 to 203, entered when both agents are among the participants and the phase is
  still \<^verbatim>\<open>waiting_for_agents\<close>.  Phase and status are written first; the context is then
  generated and pushed into the transfer room, and either call may raise.
\<close>

definition join_start_briefing :: "service \<Rightarrow> env \<Rightarrow> string \<Rightarrow> transfer \<Rightarrow> (exn + transfer) \<times> service" where
  "join_start_briefing st env tid t =
     (let t2 = t\<lparr>phase := ''briefing'', status := ''in_progress''\<rparr>;
          st2 = st\<lparr>active_transfers := (active_transfers st)(tid \<mapsto> t2)\<rparr>
      in case summary_item (ai_summary t2) ''summary'' of
           Inl e \<Rightarrow> (Inl e, st2)
         | Inr call_summary \<Rightarrow>
        (case generate_agent_context (providers_openai st2) env of
           Inl e \<Rightarrow> (Inl e, st2)
         | Inr context \<Rightarrow>
        (case send_data_to_room (livekit st2) env (transfer_room t2) of
           (Inl e, lk) \<Rightarrow> (Inl e, st2\<lparr>livekit := lk\<rparr>)
         | (Inr _, lk) \<Rightarrow>
             (Inr t2,
              st2\<lparr>livekit := lk,
                  db_transfers := (case db_transfers st2 tid of
                      None \<Rightarrow> db_transfers st2
                    | Some d \<Rightarrow> (db_transfers st2)(tid \<mapsto>
                        d\<lparr>db_status := ''in_progress'', db_ai_context := Some context\<rparr>))\<rparr>))))"

text \<open>Lines 216 to 222: the dict returned to the joining agent.\<close>

definition join_response :: "access_info \<Rightarrow> transfer \<Rightarrow> string \<Rightarrow> join_result" where
  "join_response info t agent_id =
     \<lparr>jr_access_token = access_token info, jr_room_name = room_name info,
      jr_transfer_phase = phase t,
      jr_ai_summary = (if agent_id = target_agent_id t then Some (ai_summary t) else None)\<rparr>"

definition join_transfer_room ::
  "service \<Rightarrow> env \<Rightarrow> string \<Rightarrow> string \<Rightarrow> string \<Rightarrow> (exn + join_result) \<times> service" where
  "join_transfer_room st env tid agent_id r =
     (case active_transfers st tid of
        None \<Rightarrow> (Inl (ValueError (TransferNotFound tid)), st)
      | Some t \<Rightarrow>
     (case add_participant_to_room (livekit st) env (transfer_room t) agent_id
             (Some (''Agent-'' @ agent_id)) r of
        (Inl e, lk) \<Rightarrow> (Inl (Wrapped ''Failed to join transfer room'' e), st\<lparr>livekit := lk\<rparr>)
      | (Inr info, lk) \<Rightarrow>
          let ps = (case participants t of None \<Rightarrow> Map.empty | Some p \<Rightarrow> p)
                     (agent_id \<mapsto> \<lparr>joined_at = utcnow env, role = r\<rparr>);
              t1 = t\<lparr>participants := Some ps\<rparr>;
              st1 = st\<lparr>livekit := lk, active_transfers := (active_transfers st)(tid \<mapsto> t1)\<rparr>;
              source_joined = (ps (source_agent_id t1) \<noteq> None);
              target_joined = (ps (target_agent_id t1) \<noteq> None)
          in if source_joined \<and> target_joined \<and> phase t1 = ''waiting_for_agents'' then
               (case join_start_briefing st1 env tid t1 of
                  (Inl e, st2) \<Rightarrow> (Inl (Wrapped ''Failed to join transfer room'' e), st2)
                | (Inr t2, st2) \<Rightarrow> (Inr (join_response info t2 agent_id), st2))
             else (Inr (join_response info t1 agent_id), st1)))"

subsection \<open>complete_transfer\<close>

record complete_result =
  cr_transfer_id :: string
  cr_status :: string
  cr_success :: bool
  cr_duration :: "int option"

text \<open>
  \<^verbatim>\<open>_update_agent_post_transfer\<close>: both rows are fetched in one session, so when source
  and target are the same agent the second update is applied to the row the first one
  changed.
\<close>

definition update_agent_post_transfer ::
  "(string \<rightharpoonup> agent) \<Rightarrow> string \<Rightarrow> string \<Rightarrow> bool \<Rightarrow> (string \<rightharpoonup> agent)" where
  "update_agent_post_transfer agents source target success =
     (let agents1 = (case agents source of
                       None \<Rightarrow> agents
                     | Some a \<Rightarrow> agents(source \<mapsto>
                         a\<lparr>successful_transfers :=
                              (if success then successful_transfers a + 1 else successful_transfers a),
                           current_calls := max 0 (current_calls a - 1)\<rparr>))
      in case agents1 target of
           None \<Rightarrow> agents1
         | Some b \<Rightarrow> agents1(target \<mapsto>
             b\<lparr>current_calls := current_calls b + 1,
               total_calls_handled := total_calls_handled b + 1\<rparr>))"

text \<open>\<^verbatim>\<open>_cleanup_transfer\<close>: both dictionaries lose the key.\<close>

definition cleanup_transfer :: "service \<Rightarrow> string \<Rightarrow> service" where
  "cleanup_transfer st tid =
     st\<lparr>active_transfers := (active_transfers st)(tid := None),
        transfer_timeouts := (transfer_timeouts st)(tid := None)\<rparr>"

text \<open>
  Lines 272 to 306, shared by both outcomes: the row is updated if there is one, the entry
  leaves the working set, and the answer is built from the dict \<open>t\<close> as it is by then.
\<close>

definition complete_finish ::
  "service \<Rightarrow> string \<Rightarrow> transfer \<Rightarrow> bool \<Rightarrow> string option \<Rightarrow> (exn + complete_result) \<times> service" where
  "complete_finish st tid t success feedback =
     (let duration = (case completed_at t of None \<Rightarrow> 0 | Some c \<Rightarrow> c - created_at t);
          st1 = st\<lparr>db_transfers := (case db_transfers st tid of
                    None \<Rightarrow> db_transfers st
                  | Some d \<Rightarrow> (db_transfers st)(tid \<mapsto>
                      d\<lparr>db_status := status t, db_completed_at := completed_at t,
                        db_was_successful := Some success, db_agent_feedback := feedback,
                        db_duration_seconds :=
                          (if success then Some duration else db_duration_seconds d)\<rparr>))\<rparr>
      in (Inr \<lparr>cr_transfer_id = tid, cr_status = status t, cr_success = success,
               cr_duration = (if success then Some duration else None)\<rparr>,
          cleanup_transfer st1 tid))"

text \<open>
  The method.  The timer is cancelled and forgotten first (lines 243 to 245).  Only the
  LiveKit call of the successful branch can raise; the handler of line 308 then marks the
  entry, which is still in the working set, with the status \<^verbatim>\<open>error\<close>.  The branch for
  \<^verbatim>\<open>success=False\<close> (lines 266 to 270) writes two keys of the dict and calls nothing.
\<close>

definition complete_transfer ::
  "service \<Rightarrow> env \<Rightarrow> string \<Rightarrow> bool \<Rightarrow> string option \<Rightarrow> (exn + complete_result) \<times> service" where
  "complete_transfer st env tid success feedback =
     (case active_transfers st tid of
        None \<Rightarrow> (Inl (ValueError (TransferNotFound tid)), st)
      | Some t \<Rightarrow>
          let st1 = st\<lparr>transfer_timeouts := (transfer_timeouts st)(tid := None)\<rparr> in
          if success then
            (case complete_warm_transfer (livekit st1) env tid True of
               (Inl e, lk) \<Rightarrow>
                 (Inl (Wrapped ''Transfer completion failed'' e),
                  st1\<lparr>livekit := lk,
                      active_transfers := (active_transfers st1)(tid \<mapsto> t\<lparr>status := ''error''\<rparr>)\<rparr>)
             | (Inr _, lk) \<Rightarrow>
                 let st2 = st1\<lparr>livekit := lk,
                               db_agents := update_agent_post_transfer (db_agents st1)
                                 (source_agent_id t) (target_agent_id t) True\<rparr>;
                     t1 = t\<lparr>status := ''completed'', completed_at := Some (utcnow env)\<rparr>
                 in complete_finish st2 tid t1 success feedback)
          else
            (let t1 = t\<lparr>status := ''failed'', completed_at := Some (utcnow env)\<rparr>
             in complete_finish st1 tid t1 success feedback))"

subsection \<open>cancel_transfer and the timeout task\<close>

record cancel_result =
  xr_transfer_id :: string
  xr_status :: string
  xr_reason :: "string option"

text \<open>
  \<open>running\<close> is the timeout task the call executes in, \<open>None\<close> for a request handler.
  Lines 327 to 329 call \<^verbatim>\<open>cancel()\<close> on the task stored for the transfer.  When that task is
  the running one, asyncio marks it and raises \<^verbatim>\<open>CancelledError\<close> inside it at its next
  suspension, which is the request to the LiveKit server awaited in \<^verbatim>\<open>delete_room\<close>
  (line 165): the request is abandoned, neither \<^verbatim>\<open>except Exception\<close> clause catches the
  error, and nothing after line 333 runs.  Otherwise the room is deleted (the outcome is
  not looked at), the row is updated if there is one, and the entry leaves the working set.
\<close>

definition cancel_transfer ::
  "service \<Rightarrow> env \<Rightarrow> task option \<Rightarrow> string \<Rightarrow> string option \<Rightarrow> (exn + cancel_result) \<times> service" where
  "cancel_transfer st env running tid reason =
     (case active_transfers st tid of
        None \<Rightarrow> (Inl (ValueError (TransferNotFound tid)), st)
      | Some t \<Rightarrow>
          let must_cancel = (case transfer_timeouts st tid of
                               None \<Rightarrow> False
                             | Some tk \<Rightarrow> running = Some tk);
              st1 = st\<lparr>transfer_timeouts := (transfer_timeouts st)(tid := None)\<rparr>
          in if must_cancel then
               (Inl CancelledError,
                st1\<lparr>livekit := (livekit st1)\<lparr>api_log := api_log (livekit st1) @
                       [(DeleteRoomRequest (transfer_room t), Aborted)]\<rparr>\<rparr>)
             else
               (case delete_room (livekit st1) env (transfer_room t) of
                  (_, lk) \<Rightarrow>
                    (Inr \<lparr>xr_transfer_id = tid, xr_status = ''cancelled'', xr_reason = reason\<rparr>,
                     cleanup_transfer
                       (st1\<lparr>livekit := lk,
                            db_transfers := (case db_transfers st1 tid of
                                None \<Rightarrow> db_transfers st1
                              | Some d \<Rightarrow> (db_transfers st1)(tid \<mapsto>
                                  d\<lparr>db_status := ''cancelled'', db_agent_feedback := reason\<rparr>))\<rparr>)
                       tid)))"

text \<open>
  \<^verbatim>\<open>_handle_transfer_timeout\<close> after its sleep.  It runs in the task created for it at line
  115, and calls \<^verbatim>\<open>cancel_transfer\<close> from inside that task.
\<close>

definition handle_transfer_timeout :: "service \<Rightarrow> env \<Rightarrow> string \<Rightarrow> (exn + unit) \<times> service" where
  "handle_transfer_timeout st env tid =
     (if active_transfers st tid \<noteq> None then
        (case cancel_transfer st env (Some (TimeoutTask tid)) tid (Some ''timeout'') of
           (Inl e, st1) \<Rightarrow> (Inl e, st1)
         | (Inr _, st1) \<Rightarrow> (Inr (), st1))
      else (Inr (), st))"

subsection \<open>get_transfer_status\<close>

text \<open>
  The status and the phase that a reader is given: those of the live entry, else those of
  the stored row (whose phase is \<^verbatim>\<open>completed\<close> when \<^verbatim>\<open>completed_at\<close> is set and \<^verbatim>\<open>unknown\<close>
  otherwise), else the transfer is unknown.
\<close>

definition get_transfer_status :: "service \<Rightarrow> string \<Rightarrow> exn + (string \<times> string)" where
  "get_transfer_status st tid =
     (case active_transfers st tid of
        Some t \<Rightarrow> Inr (status t, phase t)
      | None \<Rightarrow>
     (case db_transfers st tid of
        Some d \<Rightarrow> Inr (db_status d, if db_completed_at d \<noteq> None then ''completed'' else ''unknown'')
      | None \<Rightarrow> Inl (ValueError (TransferNotFound tid))))"

section \<open>The vocabulary of the specification\<close>

text \<open>
  The services raise \<^verbatim>\<open>ValueError\<close> and \<^verbatim>\<open>Exception\<close> with a message and declare no error
  classes.  The specification names five kinds of failure; \<open>exn_kind\<close> reads the kind off
  the message, looking through the prefixes that the \<^verbatim>\<open>except\<close> clauses add: an identifier
  that is not found is \<open>NotFound\<close>, a target agent that is not available or is at capacity
  is \<open>Unavailable\<close>, a client library failure is \<open>UpstreamFailure\<close>.  No message of the code
  speaks of a transfer that already exists, so none has the kind \<open>Conflict\<close>.
\<close>

datatype error_kind = NotFound | Conflict | Unavailable | UpstreamFailure | Internal

fun message_kind :: "message \<Rightarrow> error_kind" where
  "message_kind (CallNotFound c) = NotFound"
| "message_kind (SourceAgentNotFound a) = NotFound"
| "message_kind (TargetAgentNotFound a) = NotFound"
| "message_kind (TargetAgentNotAvailable a) = Unavailable"
| "message_kind (TargetAgentAtCapacity a) = Unavailable"
| "message_kind (TransferNotFound t) = NotFound"

fun exn_kind :: "exn \<Rightarrow> error_kind" where
  "exn_kind (ValueError m) = message_kind m"
| "exn_kind (Exception m) = message_kind m"
| "exn_kind (Wrapped p e) = exn_kind e"
| "exn_kind UpstreamError = UpstreamFailure"
| "exn_kind TypeError = Internal"
| "exn_kind (KeyError k) = Internal"
| "exn_kind CancelledError = Internal"

text \<open>
  The six phases of the specification, and the rows of the table of its section 4.1 as a
  relation between a phase, an event and the next phase.  The row for a successful
  completion passes through \<open>completing\<close> to \<open>completed\<close>; both are allowed as the phase
  seen next.
\<close>

datatype spec_phase = awaiting_agents | briefing | completing | completed | failed | cancelled

datatype event = OperatorJoins | CompleteSuccess | CompleteFailure | CancelRequest | TimeoutElapses

fun spec_edge :: "spec_phase \<Rightarrow> event \<Rightarrow> spec_phase \<Rightarrow> bool" where
  "spec_edge awaiting_agents OperatorJoins q = (q = awaiting_agents \<or> q = briefing)"
| "spec_edge briefing CompleteSuccess q = (q = completing \<or> q = completed)"
| "spec_edge briefing CompleteFailure q = (q = failed)"
| "spec_edge awaiting_agents CancelRequest q = (q = cancelled)"
| "spec_edge briefing CancelRequest q = (q = cancelled)"
| "spec_edge awaiting_agents TimeoutElapses q = (q = cancelled)"
| "spec_edge briefing TimeoutElapses q = (q = cancelled)"
| "spec_edge p ev q = False"

text \<open>The forward order: awaiting_agents, briefing, completing, then the terminal phases.\<close>

fun phase_rank :: "spec_phase \<Rightarrow> nat" where
  "phase_rank awaiting_agents = 0"
| "phase_rank briefing = 1"
| "phase_rank completing = 2"
| "phase_rank completed = 3"
| "phase_rank failed = 3"
| "phase_rank cancelled = 3"

text \<open>
  The phase of the specification that a pair of status and phase, as \<^verbatim>\<open>get_transfer_status\<close>
  returns them, stands for.  A live entry carries one of the two phases the code writes;
  a stored row of a transfer that has left the working set is told by its status.
\<close>

definition spec_phase_of :: "string \<times> string \<Rightarrow> spec_phase option" where
  "spec_phase_of v =
     (case v of (st, ph) \<Rightarrow>
        if ph = ''waiting_for_agents'' then Some awaiting_agents
        else if ph = ''briefing'' then Some briefing
        else if st = ''completed'' then Some completed
        else if st = ''failed'' then Some failed
        else if st = ''cancelled'' then Some cancelled
        else None)"

definition observed_phase :: "service \<Rightarrow> string \<Rightarrow> spec_phase option" where
  "observed_phase st tid =
     (case get_transfer_status st tid of
        Inl e \<Rightarrow> None
      | Inr v \<Rightarrow> spec_phase_of v)"

text \<open>
  An entry of the working set as the orchestrator keeps it: its phase is one of the two
  the code writes, and its row exists (\<^verbatim>\<open>initiate_warm_transfer\<close> stores both, and rows are
  never deleted).
\<close>

definition tracked :: "service \<Rightarrow> string \<Rightarrow> bool" where
  "tracked st tid =
     (case active_transfers st tid of
        None \<Rightarrow> True
      | Some t \<Rightarrow> (phase t = ''waiting_for_agents'' \<or> phase t = ''briefing'')
                  \<and> db_transfers st tid \<noteq> None)"

section \<open>Sequences of operations\<close>

text \<open>
  The four operations on an existing transfer, each with the outside world it meets.
  \<open>Cancel\<close> is the call from a request handler; \<open>Timeout\<close> is the timer task of that
  transfer reaching the end of its sleep.
\<close>

datatype op =
    Join string string string
  | Complete string bool "string option"
  | Cancel string "string option"
  | Timeout string

fun op_transfer :: "op \<Rightarrow> string" where
  "op_transfer (Join tid a r) = tid"
| "op_transfer (Complete tid s f) = tid"
| "op_transfer (Cancel tid r) = tid"
| "op_transfer (Timeout tid) = tid"

fun op_event :: "op \<Rightarrow> event" where
  "op_event (Join tid a r) = OperatorJoins"
| "op_event (Complete tid s f) = (if s then CompleteSuccess else CompleteFailure)"
| "op_event (Cancel tid r) = CancelRequest"
| "op_event (Timeout tid) = TimeoutElapses"

fun is_complete :: "op \<Rightarrow> bool" where
  "is_complete (Complete tid s f) = True"
| "is_complete _ = False"

fun step :: "service \<Rightarrow> env \<times> op \<Rightarrow> service" where
  "step st (env, Join tid a r) = snd (join_transfer_room st env tid a r)"
| "step st (env, Complete tid s f) = snd (complete_transfer st env tid s f)"
| "step st (env, Cancel tid r) = snd (cancel_transfer st env None tid r)"
| "step st (env, Timeout tid) = snd (handle_transfer_timeout st env tid)"

fun run :: "service \<Rightarrow> (env \<times> op) list \<Rightarrow> service" where
  "run st [] = st"
| "run st (x # xs) = run (step st x) xs"

text \<open>
  The identifiers in the \<^verbatim>\<open>participants\<close> dict of an entry (none while the key is absent),
  and the identifiers that a list of operations passes to \<^verbatim>\<open>join_transfer_room\<close> for one
  transfer.
\<close>

definition participant_ids :: "transfer \<Rightarrow> string set" where
  "participant_ids t = (case participants t of None \<Rightarrow> {} | Some ps \<Rightarrow> dom ps)"

fun joiners :: "string \<Rightarrow> (env \<times> op) list \<Rightarrow> string set" where
  "joiners tid [] = {}"
| "joiners tid ((env, Join tid' a r) # xs) =
     (if tid' = tid then insert a (joiners tid xs) else joiners tid xs)"
| "joiners tid (x # xs) = joiners tid xs"

section \<open>Sample states\<close>

text \<open>
  A directory with two agents below their capacity and one at capacity, one call, no
  OpenAI client configured (the default of \<^verbatim>\<open>Settings\<close>), and a LiveKit server that answers.
\<close>

definition op_A :: agent where
  "op_A = \<lparr>agent_pk = 1, is_available = True, agent_status = ''online'', current_calls = 1,
           max_concurrent_calls = 3, successful_transfers = 0, total_calls_handled = 5\<rparr>"

definition op_B :: agent where
  "op_B = \<lparr>agent_pk = 2, is_available = True, agent_status = ''online'', current_calls = 0,
           max_concurrent_calls = 3, successful_transfers = 0, total_calls_handled = 2\<rparr>"

definition op_full :: agent where
  "op_full = \<lparr>agent_pk = 3, is_available = True, agent_status = ''online'', current_calls = 3,
              max_concurrent_calls = 3, successful_transfers = 0, total_calls_handled = 9\<rparr>"

definition call_c1 :: call where
  "call_c1 = \<lparr>call_pk = 1, call_room_name = ''room_c1'', caller_info = None\<rparr>"

definition env0 :: env where
  "env0 = \<lparr>uuid_transfer = ''t1'', uuid_room_suffix = ''abc123'', utcnow = 100,
           openai_reply = None, token_ok = True, create_room_ok = True,
           delete_room_ok = True, remove_participant_ok = True, send_data_ok = True\<rparr>"

definition service0 :: service where
  "service0 =
     \<lparr>active_transfers = Map.empty, transfer_timeouts = Map.empty,
      livekit = \<lparr>active_rooms = Map.empty, lk_active_transfers = Map.empty,
                 participant_sessions = Map.empty, api_log = []\<rparr>,
      providers_openai = False,
      db_calls = [''c1'' \<mapsto> call_c1],
      db_agents = [''op-A'' \<mapsto> op_A, ''op-B'' \<mapsto> op_B, ''op-F'' \<mapsto> op_full],
      db_transfers = Map.empty\<rparr>"

text \<open>
  A transfer of call \<open>c1\<close> from \<open>op-A\<close> to \<open>op-B\<close> as lines 74 to 118 leave it when the
  summary is a dict: the entry, its timer, its row, its transfer room and the original room
  with \<open>op-A\<close> in it.
\<close>

definition transfer_t0 :: transfer where
  "transfer_t0 =
     \<lparr>transfer_id = ''t0'', call_id = ''c1'', source_agent_id = ''op-A'',
      target_agent_id = ''op-B'', transfer_room = ''transfer_t0_000000'',
      original_room = ''room_c1'', status = ''initiated'',
      ai_summary = SummaryDict ''The caller reported a billing problem.'' ''neutral'',
      created_at = 40, phase = ''waiting_for_agents'', participants = None,
      completed_at = None, cancelled_at = None\<rparr>"

definition row_t0 :: db_transfer where
  "row_t0 =
     \<lparr>db_call_id = 1, db_source_agent_id = 1, db_target_agent_id = 2,
      db_transfer_type = ''warm'', db_reason = None,
      db_transfer_room_name = ''transfer_t0_000000'', db_status = ''initiated'',
      db_ai_summary = ''The caller reported a billing problem.'',
      db_sentiment_analysis = ''neutral'', db_ai_context = None, db_completed_at = None,
      db_duration_seconds = None, db_was_successful = None, db_agent_feedback = None\<rparr>"

definition livekit_t0 :: livekit_service where
  "livekit_t0 =
     \<lparr>active_rooms =
        [''room_c1'' \<mapsto> \<lparr>room_created_at = 10, room_max_participants = 10,
                          room_participants = [''op-A'' \<mapsto>
                            \<lparr>rp_name = ''Agent-op-A'', rp_role = ''agent'', rp_joined_at = 11\<rparr>]\<rparr>,
         ''transfer_t0_000000'' \<mapsto> \<lparr>room_created_at = 40, room_max_participants = 3,
                                    room_participants = Map.empty\<rparr>],
      lk_active_transfers =
        [''t0'' \<mapsto> \<lparr>lk_transfer_room = ''transfer_t0_000000'', lk_original_room = ''room_c1'',
                     agent_a = ''op-A'', agent_b = ''op-B'', caller = ''caller'',
                     lk_status = ''initiated'', lk_created_at = 40, lk_completed_at = None,
                     lk_error = None\<rparr>],
      participant_sessions = Map.empty,
      api_log = [(CreateRoomRequest ''transfer_t0_000000'', Returned)]\<rparr>"

definition service_live :: service where
  "service_live =
     service0\<lparr>active_transfers := [''t0'' \<mapsto> transfer_t0],
              transfer_timeouts := [''t0'' \<mapsto> TimeoutTask ''t0''],
              livekit := livekit_t0,
              db_transfers := [''t0'' \<mapsto> row_t0]\<rparr>"

text \<open>
  The same with an OpenAI client that answers, and the state after both agents have
  joined the transfer room.
\<close>

definition env1 :: env where
  "env1 = env0\<lparr>openai_reply := Some ''Greet the caller and confirm the invoice number.''\<rparr>"

definition service_ai :: service where
  "service_ai = service_live\<lparr>providers_openai := True\<rparr>"

definition service_briefing :: service where
  "service_briefing =
     run service_ai [(env1, Join ''t0'' ''op-A'' ''agent''), (env1, Join ''t0'' ''op-B'' ''agent'')]"

section \<open>Properties of initiate_warm_transfer\<close>

lemmas livekit_defs = create_room_def delete_room_def add_participant_to_room_def
  remove_participant_from_room_def create_transfer_room_def send_data_to_room_def
  complete_warm_transfer_def generate_access_token_def

lemmas sample_defs = op_A_def op_B_def op_full_def call_c1_def env0_def env1_def service0_def
  transfer_t0_def row_t0_def livekit_t0_def service_live_def service_ai_def

lemma message_kind_not_conflict: "message_kind m \<noteq> Conflict"
  by (cases m) simp_all

lemma exn_kind_not_conflict: "exn_kind e \<noteq> Conflict"
  by (induction e) (simp_all add: message_kind_not_conflict)

lemma initiate_validate_unavailable:
  assumes "db_calls st cid = Some c" "db_agents st source = Some a" "db_agents st target = Some b"
      and "\<not> is_available b \<or> agent_status b \<noteq> ''online'' \<or> \<not> current_calls b < max_concurrent_calls b"
  shows "initiate_validate st cid source target =
           Inl (ValueError (if \<not> is_available b \<or> agent_status b \<noteq> ''online''
                            then TargetAgentNotAvailable target else TargetAgentAtCapacity target))"
  using assms by (auto simp: initiate_validate_def)

text \<open>
  Claim C8.  A request whose call and source agent are known and whose target agent is
  not available, not online, or has a current load that is not strictly below its maximum
  (equal to it, in particular) fails; the exception carries the message of the failed
  check, which is of the kind Unavailable; and the state afterwards is the state before,
  less any entry under the identifier drawn for the request: no room has been asked for
  or recorded, no row written, no entry added to the working set.
\<close>

theorem initiate_unavailable:
  assumes "db_calls st cid = Some c" "db_agents st source = Some a" "db_agents st target = Some b"
      and "\<not> is_available b \<or> agent_status b \<noteq> ''online'' \<or> \<not> current_calls b < max_concurrent_calls b"
  shows "initiate_warm_transfer st env cid source target reason =
           (Inl (Wrapped ''Transfer initiation failed''
                  (ValueError (if \<not> is_available b \<or> agent_status b \<noteq> ''online''
                     then TargetAgentNotAvailable target else TargetAgentAtCapacity target))),
            st\<lparr>active_transfers := (active_transfers st)(uuid_transfer env := None)\<rparr>)
         \<and> exn_kind (Wrapped ''Transfer initiation failed''
                  (ValueError (if \<not> is_available b \<or> agent_status b \<noteq> ''online''
                     then TargetAgentNotAvailable target else TargetAgentAtCapacity target))) = Unavailable"
  using initiate_validate_unavailable[OF assms]
  by (simp add: initiate_warm_transfer_def initiate_try_def Let_def)

text \<open>
  The scenario of the specification: call \<open>c1\<close>, source \<open>op-A\<close>, and a target whose current
  load equals its maximum.  The state is left as it was.
\<close>

theorem initiate_unavailable_witness:
  "db_calls service0 ''c1'' = Some call_c1 \<and> db_agents service0 ''op-A'' = Some op_A
   \<and> db_agents service0 ''op-F'' = Some op_full
   \<and> current_calls op_full = max_concurrent_calls op_full
   \<and> initiate_warm_transfer service0 env0 ''c1'' ''op-A'' ''op-F'' None =
       (Inl (Wrapped ''Transfer initiation failed'' (ValueError (TargetAgentAtCapacity ''op-F''))),
        service0)"
proof -
  have h: "db_calls service0 ''c1'' = Some call_c1" "db_agents service0 ''op-A'' = Some op_A"
       "db_agents service0 ''op-F'' = Some op_full"
    by (simp_all add: service0_def)
  have u: "\<not> is_available op_full \<or> agent_status op_full \<noteq> ''online''
            \<or> \<not> current_calls op_full < max_concurrent_calls op_full"
    by (simp add: op_full_def)
  have s: "service0\<lparr>active_transfers := (active_transfers service0)(uuid_transfer env0 := None)\<rparr> = service0"
    by (simp add: service0_def)
  show ?thesis
    using initiate_unavailable[OF h u, of env0 None] h s
    by (simp add: op_full_def)
qed

text \<open>
  Whatever the request and the outside world, the body of \<^verbatim>\<open>initiate_warm_transfer\<close>
  raises: either a check fails, or the room cannot be created, or the summary, which is a
  \<^verbatim>\<open>str\<close>, is subscripted.
\<close>

lemma initiate_try_raises: "\<exists>e. fst (initiate_try st env cid source target reason) = Inl e"
  by (auto simp: initiate_try_def Let_def generate_call_summary_def
      split: sum.splits prod.splits option.splits)

lemma initiate_warm_transfer_raises:
  "\<exists>e. fst (initiate_warm_transfer st env cid source target reason) = Inl e"
  using initiate_try_raises[of st env cid source target reason]
  by (auto simp: initiate_warm_transfer_def split: prod.splits sum.splits)

text \<open>
  Claim C5.  The claim is that a request whose summarizer call fails is still served,
  with a fallback summary and a transfer in awaiting_agents.  Evaluated on a valid request
  with an OpenAI client configured whose request raises: the summarizer does return its
  fallback text, but the request then fails with the \<^verbatim>\<open>TypeError\<close> of subscripting that
  text, after the transfer room has been created; no entry is stored and the room stays.
\<close>

theorem initiate_fallback_summary_aborts:
  "openai_reply env0 = None
   \<and> generate_call_summary True env0 = SummaryStr get_enhanced_fallback_summary
   \<and> fst (initiate_warm_transfer (service0\<lparr>providers_openai := True\<rparr>) env0 ''c1'' ''op-A'' ''op-B'' None) =
       Inl (Wrapped ''Transfer initiation failed'' TypeError)
   \<and> active_transfers
        (snd (initiate_warm_transfer (service0\<lparr>providers_openai := True\<rparr>) env0 ''c1'' ''op-A'' ''op-B'' None))
        ''t1'' = None
   \<and> active_rooms
        (livekit (snd (initiate_warm_transfer (service0\<lparr>providers_openai := True\<rparr>) env0 ''c1'' ''op-A'' ''op-B'' None)))
        ''transfer_t1_abc123'' \<noteq> None"
  by (simp add: initiate_warm_transfer_def initiate_try_def initiate_validate_def
      generate_call_summary_def caller_identity_def livekit_defs sample_defs Let_def)

text \<open>
  Claim C1, as stated, fails.  With a live transfer \<open>t0\<close> of call \<open>c1\<close> in the working set, a
  second request for \<open>c1\<close> is not turned away as a conflict: it passes the checks, has a
  second transfer room created, and ends in the \<^verbatim>\<open>TypeError\<close> above, whose kind is not
  Conflict.
\<close>

theorem initiate_second_not_conflict:
  "active_transfers service_live ''t0'' = Some transfer_t0 \<and> call_id transfer_t0 = ''c1''
   \<and> fst (initiate_warm_transfer service_live env0 ''c1'' ''op-A'' ''op-B'' None) =
       Inl (Wrapped ''Transfer initiation failed'' TypeError)
   \<and> exn_kind (Wrapped ''Transfer initiation failed'' TypeError) \<noteq> Conflict
   \<and> active_rooms (livekit (snd (initiate_warm_transfer service_live env0 ''c1'' ''op-A'' ''op-B'' None)))
        ''transfer_t1_abc123'' \<noteq> None
   \<and> active_rooms (livekit service_live) ''transfer_t1_abc123'' = None"
  by (simp add: initiate_warm_transfer_def initiate_try_def initiate_validate_def
      generate_call_summary_def caller_identity_def livekit_defs sample_defs Let_def)

lemma initiate_validate_frame:
  "initiate_validate (st\<lparr>active_transfers := w, transfer_timeouts := tm\<rparr>) cid source target =
   initiate_validate st cid source target"
  by (simp add: initiate_validate_def split: option.splits)

text \<open>
  Claim C1, amended.  \<^verbatim>\<open>initiate_warm_transfer\<close> does not consult the working set: with any
  other working set and timer table in place of the current ones, the same request gets
  the same answer, leaves the same rooms, LiveKit records and requests, and the same rows;
  and no exception it raises is of the kind Conflict.
\<close>

theorem initiate_ignores_working_set:
  "fst (initiate_warm_transfer (st\<lparr>active_transfers := w, transfer_timeouts := tm\<rparr>) env cid source target reason)
     = fst (initiate_warm_transfer st env cid source target reason)
   \<and> livekit (snd (initiate_warm_transfer (st\<lparr>active_transfers := w, transfer_timeouts := tm\<rparr>) env cid source target reason))
     = livekit (snd (initiate_warm_transfer st env cid source target reason))
   \<and> db_transfers (snd (initiate_warm_transfer (st\<lparr>active_transfers := w, transfer_timeouts := tm\<rparr>) env cid source target reason))
     = db_transfers (snd (initiate_warm_transfer st env cid source target reason))
   \<and> (case fst (initiate_warm_transfer st env cid source target reason) of
        Inl e \<Rightarrow> exn_kind e \<noteq> Conflict | Inr r \<Rightarrow> True)"
  by (simp add: initiate_warm_transfer_def initiate_try_def initiate_validate_frame Let_def
      exn_kind_not_conflict split: sum.splits prod.splits)

text \<open>
  The request for call \<open>c1\<close> gets the same answer with the live transfer of \<open>c1\<close> in the
  working set as with an empty one.
\<close>

theorem initiate_ignores_working_set_witness:
  "fst (initiate_warm_transfer
          (service0\<lparr>active_transfers := [''t0'' \<mapsto> transfer_t0],
                    transfer_timeouts := [''t0'' \<mapsto> TimeoutTask ''t0'']\<rparr>)
          env0 ''c1'' ''op-A'' ''op-B'' None)
     = fst (initiate_warm_transfer service0 env0 ''c1'' ''op-A'' ''op-B'' None)"
  using initiate_ignores_working_set[where st = service0 and w = "[''t0'' \<mapsto> transfer_t0]"
      and tm = "[''t0'' \<mapsto> TimeoutTask ''t0'']" and env = env0 and cid = "''c1''"
      and source = "''op-A''" and target = "''op-B''" and reason = None]
  by simp

section \<open>What each operation does to one transfer\<close>

lemmas service_defs = join_transfer_room_def join_start_briefing_def join_response_def
  complete_transfer_def complete_finish_def cleanup_transfer_def update_agent_post_transfer_def
  cancel_transfer_def handle_transfer_timeout_def generate_agent_context_def

lemmas observe_defs = observed_phase_def get_transfer_status_def spec_phase_of_def tracked_def

text \<open>
  For each of the four operations: an unknown transfer is refused and nothing changes;
  the entries and rows of other transfers are left alone; no row appears or disappears;
  and the entry and row of the transfer itself change as stated.
\<close>

lemma join_unknown:
  "active_transfers st tid = None \<Longrightarrow>
     join_transfer_room st env tid a r = (Inl (ValueError (TransferNotFound tid)), st)"
  by (simp add: join_transfer_room_def)

lemma join_start_briefing_entry:
  "active_transfers (snd (join_start_briefing st env tid t)) =
     (active_transfers st)(tid \<mapsto> t\<lparr>phase := ''briefing'', status := ''in_progress''\<rparr>)"
  by (simp add: join_start_briefing_def send_data_to_room_def Let_def
      split: sum.splits prod.splits)

lemma join_start_briefing_rows:
  "(db_transfers (snd (join_start_briefing st env tid t)) k = None) = (db_transfers st k = None)"
  "k \<noteq> tid \<Longrightarrow> db_transfers (snd (join_start_briefing st env tid t)) k = db_transfers st k"
  by (simp_all add: join_start_briefing_def send_data_to_room_def Let_def
      split: sum.splits prod.splits option.splits)

lemma join_other_entry:
  "k \<noteq> tid \<Longrightarrow> active_transfers (snd (join_transfer_room st env tid a r)) k = active_transfers st k"
  by (simp add: join_transfer_room_def add_participant_to_room_def Let_def case_prod_beta
      join_start_briefing_entry split: option.splits sum.splits)

lemma join_rows:
  "(db_transfers (snd (join_transfer_room st env tid a r)) k = None) = (db_transfers st k = None)"
  "k \<noteq> tid \<Longrightarrow> db_transfers (snd (join_transfer_room st env tid a r)) k = db_transfers st k"
  by (simp_all add: join_transfer_room_def add_participant_to_room_def Let_def case_prod_beta
      join_start_briefing_rows split: option.splits sum.splits)

lemma join_entry:
  assumes "active_transfers st tid = Some t"
  shows "\<exists>t'. active_transfers (snd (join_transfer_room st env tid a r)) tid = Some t'
           \<and> (phase t' = phase t \<or> phase t = ''waiting_for_agents'' \<and> phase t' = ''briefing'')
           \<and> (if token_ok env
               then participants t' = Some ((case participants t of None \<Rightarrow> Map.empty | Some p \<Rightarrow> p)
                                (a \<mapsto> \<lparr>joined_at = utcnow env, role = r\<rparr>))
               else participants t' = participants t)"
  using assms
  by (simp add: join_transfer_room_def add_participant_to_room_def Let_def case_prod_beta
      join_start_briefing_entry split: sum.splits)

lemma complete_unknown:
  "active_transfers st tid = None \<Longrightarrow>
     complete_transfer st env tid s f = (Inl (ValueError (TransferNotFound tid)), st)"
  by (simp add: complete_transfer_def)

lemma complete_other_entry:
  "k \<noteq> tid \<Longrightarrow> active_transfers (snd (complete_transfer st env tid s f)) k = active_transfers st k"
  by (simp add: complete_transfer_def complete_finish_def cleanup_transfer_def Let_def
      case_prod_beta split: option.splits sum.splits)

lemma complete_rows:
  "(db_transfers (snd (complete_transfer st env tid s f)) k = None) = (db_transfers st k = None)"
  "k \<noteq> tid \<Longrightarrow> db_transfers (snd (complete_transfer st env tid s f)) k = db_transfers st k"
  by (simp_all add: complete_transfer_def complete_finish_def cleanup_transfer_def Let_def
      case_prod_beta split: option.splits sum.splits)

lemma complete_entry:
  assumes "active_transfers st tid = Some t"
  shows "(active_transfers (snd (complete_transfer st env tid s f)) tid = Some (t\<lparr>status := ''error''\<rparr>)
          \<and> s \<and> db_transfers (snd (complete_transfer st env tid s f)) tid = db_transfers st tid)
       \<or> (active_transfers (snd (complete_transfer st env tid s f)) tid = None
          \<and> (case db_transfers st tid of
                None \<Rightarrow> True
              | Some d \<Rightarrow> (\<exists>d'. db_transfers (snd (complete_transfer st env tid s f)) tid = Some d'
                            \<and> db_status d' = (if s then ''completed'' else ''failed'')
                            \<and> db_completed_at d' = Some (utcnow env))))"
  using assms
  by (simp add: complete_transfer_def complete_finish_def cleanup_transfer_def Let_def
      case_prod_beta split: option.splits sum.splits)

lemma cancel_unknown:
  "active_transfers st tid = None \<Longrightarrow>
     cancel_transfer st env running tid reason = (Inl (ValueError (TransferNotFound tid)), st)"
  by (simp add: cancel_transfer_def)

lemma cancel_other_entry:
  "k \<noteq> tid \<Longrightarrow> active_transfers (snd (cancel_transfer st env running tid reason)) k = active_transfers st k"
  by (simp add: cancel_transfer_def cleanup_transfer_def Let_def
      case_prod_beta split: option.splits)

lemma cancel_rows:
  "(db_transfers (snd (cancel_transfer st env running tid reason)) k = None) = (db_transfers st k = None)"
  "k \<noteq> tid \<Longrightarrow> db_transfers (snd (cancel_transfer st env running tid reason)) k = db_transfers st k"
  by (simp_all add: cancel_transfer_def cleanup_transfer_def Let_def
      case_prod_beta split: option.splits)

lemma cancel_entry:
  assumes "active_transfers st tid = Some t"
  shows "(active_transfers (snd (cancel_transfer st env running tid reason)) tid = Some t
          \<and> running \<noteq> None
          \<and> db_transfers (snd (cancel_transfer st env running tid reason)) tid = db_transfers st tid)
       \<or> (active_transfers (snd (cancel_transfer st env running tid reason)) tid = None
          \<and> (case db_transfers st tid of
                None \<Rightarrow> True
              | Some d \<Rightarrow> db_transfers (snd (cancel_transfer st env running tid reason)) tid
                            = Some (d\<lparr>db_status := ''cancelled'', db_agent_feedback := reason\<rparr>)))"
  using assms
  by (simp add: cancel_transfer_def cleanup_transfer_def Let_def
      case_prod_beta split: option.splits)

lemma timeout_snd:
  "snd (handle_transfer_timeout st env tid) =
     snd (cancel_transfer st env (Some (TimeoutTask tid)) tid (Some ''timeout''))"
  by (simp add: handle_transfer_timeout_def cancel_unknown case_prod_beta split: sum.splits)

section \<open>The answer to a joining agent\<close>

text \<open>
  Claim C10.  When \<^verbatim>\<open>join_transfer_room\<close> returns for a live transfer, the \<^verbatim>\<open>ai_summary\<close>
  field of the answer is the summary stored with the transfer if the joining identifier
  equals the target agent of the transfer, and \<^verbatim>\<open>None\<close> for every other identifier, the
  source agent included.
\<close>

theorem join_summary_only_for_target:
  assumes "active_transfers st tid = Some t"
      and "join_transfer_room st env tid a r = (Inr res, st')"
  shows "jr_ai_summary res = (if a = target_agent_id t then Some (ai_summary t) else None)"
  using assms
  by (auto simp: join_transfer_room_def join_start_briefing_def join_response_def Let_def
      split: prod.splits sum.splits if_splits)

text \<open>
  The target \<open>op-B\<close> is given the summary of transfer \<open>t0\<close>; the source \<open>op-A\<close> is not.
\<close>

theorem join_summary_only_for_target_witness:
  "active_transfers service_live ''t0'' = Some transfer_t0
   \<and> fst (join_transfer_room service_live env0 ''t0'' ''op-B'' ''agent'') =
       Inr \<lparr>jr_access_token = AccessToken ''transfer_t0_000000'' ''op-B'' ''Agent-op-B'',
            jr_room_name = ''transfer_t0_000000'', jr_transfer_phase = ''waiting_for_agents'',
            jr_ai_summary = Some (SummaryDict ''The caller reported a billing problem.'' ''neutral'')\<rparr>
   \<and> fst (join_transfer_room service_live env0 ''t0'' ''op-A'' ''agent'') =
       Inr \<lparr>jr_access_token = AccessToken ''transfer_t0_000000'' ''op-A'' ''Agent-op-A'',
            jr_room_name = ''transfer_t0_000000'', jr_transfer_phase = ''waiting_for_agents'',
            jr_ai_summary = None\<rparr>"
proof -
  have l: "active_transfers service_live ''t0'' = Some transfer_t0"
    by (simp add: sample_defs)
  obtain resB stB where b: "join_transfer_room service_live env0 ''t0'' ''op-B'' ''agent'' = (Inr resB, stB)"
    by (simp add: service_defs livekit_defs sample_defs Let_def)
  obtain resA stA where a: "join_transfer_room service_live env0 ''t0'' ''op-A'' ''agent'' = (Inr resA, stA)"
    by (simp add: service_defs livekit_defs sample_defs Let_def)
  from join_summary_only_for_target[OF l b] join_summary_only_for_target[OF l a]
  show ?thesis using l
    by (simp add: service_defs livekit_defs sample_defs Let_def)
qed

section \<open>Cancelling twice\<close>

text \<open>
  Claim C4, as stated, fails.  The first \<^verbatim>\<open>cancel_transfer\<close> of the live transfer \<open>t0\<close>
  returns the status \<^verbatim>\<open>cancelled\<close>; the second raises \<^verbatim>\<open>ValueError\<close>, the transfer being no
  longer in the working set (lines 320 and 321).
\<close>

theorem cancel_twice_raises:
  "fst (cancel_transfer service_live env0 None ''t0'' None) =
     Inr \<lparr>xr_transfer_id = ''t0'', xr_status = ''cancelled'', xr_reason = None\<rparr>
   \<and> fst (cancel_transfer (snd (cancel_transfer service_live env0 None ''t0'' None)) env0 None ''t0'' None) =
     Inl (ValueError (TransferNotFound ''t0''))"
  by (simp add: service_defs livekit_defs sample_defs Let_def)

text \<open>
  Claim C4, amended.  A \<^verbatim>\<open>cancel_transfer\<close> that returns gives the status \<^verbatim>\<open>cancelled\<close> with
  the reason passed and removes the transfer from the working set; any later
  \<^verbatim>\<open>cancel_transfer\<close> of the same transfer raises \<^verbatim>\<open>ValueError\<close> with the message that the
  transfer is not found, and changes nothing.
\<close>

theorem cancel_again_not_found:
  assumes "cancel_transfer st env running tid reason = (Inr res, st')"
  shows "res = \<lparr>xr_transfer_id = tid, xr_status = ''cancelled'', xr_reason = reason\<rparr>
         \<and> active_transfers st' tid = None
         \<and> cancel_transfer st' env' running' tid reason' = (Inl (ValueError (TransferNotFound tid)), st')"
  using assms
  by (auto simp: cancel_transfer_def cleanup_transfer_def delete_room_def Let_def
      split: option.splits if_splits prod.splits)

text \<open>
  Transfer \<open>t0\<close> cancelled with a reason, then cancelled again.
\<close>

theorem cancel_again_not_found_witness:
  "fst (cancel_transfer service_live env0 None ''t0'' (Some ''customer hung up'')) =
     Inr \<lparr>xr_transfer_id = ''t0'', xr_status = ''cancelled'', xr_reason = Some ''customer hung up''\<rparr>
   \<and> fst (cancel_transfer (snd (cancel_transfer service_live env0 None ''t0'' (Some ''customer hung up'')))
        env0 None ''t0'' (Some ''customer hung up'')) = Inl (ValueError (TransferNotFound ''t0''))"
proof -
  obtain res st' where c: "cancel_transfer service_live env0 None ''t0'' (Some ''customer hung up'') = (Inr res, st')"
    by (simp add: service_defs livekit_defs sample_defs Let_def)
  from cancel_again_not_found[OF c, of env0 None "Some ''customer hung up''"] c
  show ?thesis by simp
qed

section \<open>The phase seen by a reader\<close>

lemma service_briefing_entry:
  "active_transfers service_briefing ''t0'' =
     Some (transfer_t0\<lparr>phase := ''briefing'', status := ''in_progress'',
            participants := Some [''op-A'' \<mapsto> \<lparr>joined_at = 100, role = ''agent''\<rparr>,
                                  ''op-B'' \<mapsto> \<lparr>joined_at = 100, role = ''agent''\<rparr>]\<rparr>)"
  by (simp add: service_briefing_def service_defs livekit_defs sample_defs Let_def)

lemma observed_live:
  assumes "active_transfers st tid = Some t"
      and "phase t = ''waiting_for_agents'' \<or> phase t = ''briefing''"
  shows "observed_phase st tid =
           Some (if phase t = ''waiting_for_agents'' then awaiting_agents else briefing)"
  using assms by (auto simp: observed_phase_def get_transfer_status_def spec_phase_of_def)

lemma observed_gone:
  assumes "active_transfers st tid = None" and "db_transfers st tid = Some d"
  shows "observed_phase st tid =
           spec_phase_of (db_status d, if db_completed_at d \<noteq> None then ''completed'' else ''unknown'')"
  using assms by (simp add: observed_phase_def get_transfer_status_def)

lemma observed_same:
  assumes "active_transfers st' tid = active_transfers st tid"
      and "db_transfers st' tid = db_transfers st tid"
  shows "observed_phase st' tid = observed_phase st tid" and "tracked st' tid = tracked st tid"
  using assms by (simp_all add: observed_phase_def get_transfer_status_def tracked_def
      split: option.splits)

lemma tracked_live:
  "active_transfers st tid = Some t \<Longrightarrow>
     tracked st tid = ((phase t = ''waiting_for_agents'' \<or> phase t = ''briefing'')
                        \<and> db_transfers st tid \<noteq> None)"
  by (simp add: tracked_def)

lemma tracked_gone: "active_transfers st tid = None \<Longrightarrow> tracked st tid"
  by (simp add: tracked_def)

lemma join_phase:
  assumes live: "active_transfers st tid = Some t"
      and tr: "tracked st tid" and ob: "observed_phase st tid = Some p"
  shows "tracked (snd (join_transfer_room st env tid a r)) tid
         \<and> (\<exists>q. observed_phase (snd (join_transfer_room st env tid a r)) tid = Some q
                \<and> (q = p \<or> spec_edge p OperatorJoins q)
                \<and> (p = briefing \<longrightarrow> q = briefing))"
proof -
  let ?st' = "snd (join_transfer_room st env tid a r)"
  from tr live have ph: "phase t = ''waiting_for_agents'' \<or> phase t = ''briefing''"
    and row: "db_transfers st tid \<noteq> None"
    by (simp_all add: tracked_live)
  from join_entry[OF live, of env a r] obtain t' where
    t': "active_transfers ?st' tid = Some t'"
        "phase t' = phase t \<or> phase t = ''waiting_for_agents'' \<and> phase t' = ''briefing''"
    by blast
  from ph t'(2) have ph': "phase t' = ''waiting_for_agents'' \<or> phase t' = ''briefing''" by auto
  from row have row': "db_transfers ?st' tid \<noteq> None" by (simp add: join_rows(1))
  have 1: "tracked ?st' tid" using t'(1) ph' row' by (simp add: tracked_live)
  have p: "p = (if phase t = ''waiting_for_agents'' then awaiting_agents else briefing)"
    using observed_live[OF live ph] ob by simp
  have q: "observed_phase ?st' tid =
             Some (if phase t' = ''waiting_for_agents'' then awaiting_agents else briefing)"
    by (rule observed_live[OF t'(1) ph'])
  have 2: "(if phase t' = ''waiting_for_agents'' then awaiting_agents else briefing) = p
           \<or> spec_edge p OperatorJoins (if phase t' = ''waiting_for_agents'' then awaiting_agents else briefing)"
    using p t'(2) ph by auto
  have 3: "p = briefing \<longrightarrow> (if phase t' = ''waiting_for_agents'' then awaiting_agents else briefing) = briefing"
    using p t'(2) ph by auto
  from 1 q 2 3 show ?thesis by simp
qed

lemma complete_phase:
  assumes live: "active_transfers st tid = Some t"
      and tr: "tracked st tid" and ob: "observed_phase st tid = Some p"
  shows "tracked (snd (complete_transfer st env tid s f)) tid
         \<and> (\<exists>q. observed_phase (snd (complete_transfer st env tid s f)) tid = Some q
                \<and> (q = p \<or> spec_edge p (if s then CompleteSuccess else CompleteFailure) q
                    \<or> p = awaiting_agents \<and> (q = completed \<or> q = failed)))"
proof -
  let ?st' = "snd (complete_transfer st env tid s f)"
  from tr live have ph: "phase t = ''waiting_for_agents'' \<or> phase t = ''briefing''"
    and row: "db_transfers st tid \<noteq> None"
    by (simp_all add: tracked_live)
  have p: "p = (if phase t = ''waiting_for_agents'' then awaiting_agents else briefing)"
    using observed_live[OF live ph] ob by simp
  from complete_entry[OF live, of env s f] show ?thesis
  proof
    assume e: "active_transfers ?st' tid = Some (t\<lparr>status := ''error''\<rparr>) \<and> s
               \<and> db_transfers ?st' tid = db_transfers st tid"
    then have a: "active_transfers ?st' tid = Some (t\<lparr>status := ''error''\<rparr>)"
      and b: "db_transfers ?st' tid = db_transfers st tid" by blast+
    have 1: "tracked ?st' tid" using a b ph row by (simp add: tracked_live)
    have "observed_phase ?st' tid = Some p"
      using observed_live[OF a] ph p by simp
    with 1 show ?thesis by simp
  next
    assume g: "active_transfers ?st' tid = None
               \<and> (case db_transfers st tid of None \<Rightarrow> True
                   | Some d \<Rightarrow> (\<exists>d'. db_transfers ?st' tid = Some d'
                        \<and> db_status d' = (if s then ''completed'' else ''failed'')
                        \<and> db_completed_at d' = Some (utcnow env)))"
    with row obtain d' where d': "db_transfers ?st' tid = Some d'"
        "db_status d' = (if s then ''completed'' else ''failed'')"
        "db_completed_at d' = Some (utcnow env)"
      by (auto split: option.splits)
    have 1: "tracked ?st' tid" using g by (simp add: tracked_gone)
    have "observed_phase ?st' tid = Some (if s then completed else failed)"
      using observed_gone[of ?st' tid d'] g d' by (simp add: spec_phase_of_def)
    with 1 p ph show ?thesis by auto
  qed
qed

lemma cancel_phase:
  assumes live: "active_transfers st tid = Some t"
      and tr: "tracked st tid" and ob: "observed_phase st tid = Some p"
  shows "tracked (snd (cancel_transfer st env running tid reason)) tid
         \<and> (\<exists>q. observed_phase (snd (cancel_transfer st env running tid reason)) tid = Some q
                \<and> (q = p \<and> running \<noteq> None
                    \<or> spec_edge p CancelRequest q \<and> spec_edge p TimeoutElapses q))"
proof -
  let ?st' = "snd (cancel_transfer st env running tid reason)"
  from tr live have ph: "phase t = ''waiting_for_agents'' \<or> phase t = ''briefing''"
    and row: "db_transfers st tid \<noteq> None"
    by (simp_all add: tracked_live)
  have p: "p = (if phase t = ''waiting_for_agents'' then awaiting_agents else briefing)"
    using observed_live[OF live ph] ob by simp
  from cancel_entry[OF live, of env running reason] show ?thesis
  proof
    assume e: "active_transfers ?st' tid = Some t \<and> running \<noteq> None
               \<and> db_transfers ?st' tid = db_transfers st tid"
    then have "active_transfers ?st' tid = active_transfers st tid"
      "db_transfers ?st' tid = db_transfers st tid" and rn: "running \<noteq> None"
      using live by simp_all
    from observed_same[OF this(1,2)] tr ob rn show ?thesis by simp
  next
    assume g: "active_transfers ?st' tid = None
               \<and> (case db_transfers st tid of None \<Rightarrow> True
                   | Some d \<Rightarrow> db_transfers ?st' tid
                        = Some (d\<lparr>db_status := ''cancelled'', db_agent_feedback := reason\<rparr>))"
    with row obtain d where d: "db_transfers ?st' tid
        = Some (d\<lparr>db_status := ''cancelled'', db_agent_feedback := reason\<rparr>)"
      by (auto split: option.splits)
    have 1: "tracked ?st' tid" using g by (simp add: tracked_gone)
    have "observed_phase ?st' tid = Some cancelled"
      using observed_gone[OF _ d] g by (simp add: spec_phase_of_def)
    with 1 p ph show ?thesis by auto
  qed
qed

lemma step_other:
  "op_transfer oper \<noteq> tid \<Longrightarrow>
     active_transfers (step st (env, oper)) tid = active_transfers st tid
     \<and> db_transfers (step st (env, oper)) tid = db_transfers st tid"
  by (cases oper)
     (simp_all add: join_other_entry join_rows complete_other_entry complete_rows
        cancel_other_entry cancel_rows timeout_snd)

lemma step_unknown: "active_transfers st (op_transfer oper) = None \<Longrightarrow> step st (env, oper) = st"
  by (cases oper) (simp_all add: join_unknown complete_unknown cancel_unknown timeout_snd)

lemma spec_edge_rank: "spec_edge p ev q \<Longrightarrow> phase_rank p \<le> phase_rank q"
  by (cases p; cases ev; simp; cases q; simp)

lemma step_phase:
  assumes tr: "tracked st tid" and ob: "observed_phase st tid = Some p"
  shows "tracked (step st (env, oper)) tid
         \<and> (\<exists>q. observed_phase (step st (env, oper)) tid = Some q
                \<and> (q = p \<or> spec_edge p (op_event oper) q
                    \<or> p = awaiting_agents \<and> is_complete oper \<and> (q = completed \<or> q = failed)))"
proof (cases "op_transfer oper = tid")
  case False
  from step_other[OF False, of st env]
  have "active_transfers (step st (env, oper)) tid = active_transfers st tid"
       "db_transfers (step st (env, oper)) tid = db_transfers st tid" by simp_all
  from observed_same[OF this] tr ob show ?thesis by simp
next
  case True
  show ?thesis
  proof (cases "active_transfers st tid")
    case None
    with True have "step st (env, oper) = st" by (simp add: step_unknown)
    with tr ob show ?thesis by simp
  next
    case (Some t)
    show ?thesis
    proof (cases oper)
      case (Join tid' a r)
      with True have e: "step st (env, oper) = snd (join_transfer_room st env tid a r)"
        "op_event oper = OperatorJoins" by simp_all
      from join_phase[OF Some tr ob, of env a r] obtain q where
        "tracked (snd (join_transfer_room st env tid a r)) tid"
        "observed_phase (snd (join_transfer_room st env tid a r)) tid = Some q"
        "q = p \<or> spec_edge p OperatorJoins q" by blast
      with e show ?thesis by auto
    next
      case (Complete tid' s f)
      with True have e: "step st (env, oper) = snd (complete_transfer st env tid s f)"
        "op_event oper = (if s then CompleteSuccess else CompleteFailure)" "is_complete oper"
        by simp_all
      from complete_phase[OF Some tr ob, of env s f] obtain q where
        "tracked (snd (complete_transfer st env tid s f)) tid"
        "observed_phase (snd (complete_transfer st env tid s f)) tid = Some q"
        "q = p \<or> spec_edge p (if s then CompleteSuccess else CompleteFailure) q
           \<or> p = awaiting_agents \<and> (q = completed \<or> q = failed)" by blast
      with e show ?thesis by auto
    next
      case (Cancel tid' reason)
      with True have e: "step st (env, oper) = snd (cancel_transfer st env None tid reason)"
        "op_event oper = CancelRequest" by simp_all
      from cancel_phase[OF Some tr ob, of env None reason] obtain q where
        "tracked (snd (cancel_transfer st env None tid reason)) tid"
        "observed_phase (snd (cancel_transfer st env None tid reason)) tid = Some q"
        "spec_edge p CancelRequest q" by blast
      with e show ?thesis by auto
    next
      case (Timeout tid')
      with True have e: "step st (env, oper)
          = snd (cancel_transfer st env (Some (TimeoutTask tid)) tid (Some ''timeout''))"
        "op_event oper = TimeoutElapses" by (simp_all add: timeout_snd)
      from cancel_phase[OF Some tr ob, of env "Some (TimeoutTask tid)" "Some ''timeout''"]
      obtain q where
        "tracked (snd (cancel_transfer st env (Some (TimeoutTask tid)) tid (Some ''timeout''))) tid"
        "observed_phase (snd (cancel_transfer st env (Some (TimeoutTask tid)) tid (Some ''timeout''))) tid
           = Some q"
        "q = p \<or> spec_edge p TimeoutElapses q" by blast
      with e show ?thesis by auto
    qed
  qed
qed

lemma run_phase:
  "tracked st tid \<Longrightarrow> observed_phase st tid = Some p \<Longrightarrow>
     \<exists>q. observed_phase (run st xs) tid = Some q \<and> phase_rank p \<le> phase_rank q"
proof (induction xs arbitrary: st p)
  case Nil
  then show ?case by simp
next
  case (Cons x xs)
  obtain env oper where x: "x = (env, oper)" by (cases x)
  from step_phase[OF Cons.prems, of env oper] obtain q where
    q: "tracked (step st x) tid" "observed_phase (step st x) tid = Some q"
       "q = p \<or> spec_edge p (op_event oper) q
          \<or> p = awaiting_agents \<and> is_complete oper \<and> (q = completed \<or> q = failed)"
    using x by blast
  have le: "phase_rank p \<le> phase_rank q"
  proof -
    from q(3) consider "q = p" | "spec_edge p (op_event oper) q"
      | "p = awaiting_agents" "q = completed \<or> q = failed" by blast
    then show ?thesis
    proof cases
      case 1 then show ?thesis by simp
    next
      case 2 then show ?thesis by (rule spec_edge_rank)
    next
      case 3 then show ?thesis by auto
    qed
  qed
  from Cons.IH[OF q(1) q(2)] obtain q' where
    q': "observed_phase (run (step st x) xs) tid = Some q'" "phase_rank q \<le> phase_rank q'" by blast
  from q'(2) le have "phase_rank p \<le> phase_rank q'" by simp
  with q'(1) show ?case by simp
qed

text \<open>
  Claim C2, as stated, fails.  \<^verbatim>\<open>complete_transfer\<close> does not look at the phase: called with
  \<^verbatim>\<open>success=False\<close> on transfer \<open>t0\<close>, which no agent has joined, it returns the status
  \<^verbatim>\<open>failed\<close>, and a reader sees the transfer pass from awaiting_agents to failed.  The table of
  section 4.1 has no row for a completion in awaiting_agents.
\<close>

theorem complete_skips_briefing:
  "observed_phase service_live ''t0'' = Some awaiting_agents
   \<and> fst (complete_transfer service_live env0 ''t0'' False None) =
       Inr \<lparr>cr_transfer_id = ''t0'', cr_status = ''failed'', cr_success = False, cr_duration = None\<rparr>
   \<and> observed_phase (snd (complete_transfer service_live env0 ''t0'' False None)) ''t0'' = Some failed
   \<and> \<not> spec_edge awaiting_agents CompleteFailure failed"
  by (simp add: observe_defs service_defs livekit_defs sample_defs Let_def)

text \<open>
  Claim C2, amended.  For a transfer kept as the orchestrator keeps it, and the phase \<open>p\<close>
  a reader sees: after any sequence of join, complete, cancel and timeout operations, on
  this or other transfers, the reader sees a phase that is not earlier than \<open>p\<close> in the
  order awaiting_agents, briefing, completing, terminal; one operation leaves the phase as
  it is, or moves it along the row of the table for its event, or, being a completion
  called in awaiting_agents, moves it to completed or failed; and a join in briefing leaves
  the phase briefing.
\<close>

theorem phase_moves_forward:
  assumes tr: "tracked st tid" and ob: "observed_phase st tid = Some p"
  shows "(\<exists>q. observed_phase (run st xs) tid = Some q \<and> phase_rank p \<le> phase_rank q)
       \<and> (\<exists>q. observed_phase (step st (env, oper)) tid = Some q
              \<and> (q = p \<or> spec_edge p (op_event oper) q
                  \<or> p = awaiting_agents \<and> is_complete oper \<and> (q = completed \<or> q = failed)))
       \<and> (p = briefing \<longrightarrow>
             observed_phase (snd (join_transfer_room st env tid a r)) tid = Some briefing)"
proof (intro conjI impI)
  show "\<exists>q. observed_phase (run st xs) tid = Some q \<and> phase_rank p \<le> phase_rank q"
    by (rule run_phase[OF tr ob])
  show "\<exists>q. observed_phase (step st (env, oper)) tid = Some q
              \<and> (q = p \<or> spec_edge p (op_event oper) q
                  \<or> p = awaiting_agents \<and> is_complete oper \<and> (q = completed \<or> q = failed))"
    using step_phase[OF tr ob, of env oper] by blast
  assume b: "p = briefing"
  show "observed_phase (snd (join_transfer_room st env tid a r)) tid = Some briefing"
  proof (cases "active_transfers st tid")
    case None
    then show ?thesis using ob b by (simp add: join_unknown)
  next
    case (Some t)
    from join_phase[OF Some tr ob, of env a r] b show ?thesis by auto
  qed
qed

text \<open>
  From the briefing of transfer \<open>t0\<close>: a third agent joins and the transfer is completed.
\<close>

theorem phase_moves_forward_witness:
  "tracked service_briefing ''t0'' \<and> observed_phase service_briefing ''t0'' = Some briefing
   \<and> (\<exists>q. observed_phase
             (run service_briefing [(env1, Join ''t0'' ''op-C'' ''agent''),
                                    (env1, Complete ''t0'' True None)]) ''t0'' = Some q
          \<and> phase_rank briefing \<le> phase_rank q)
   \<and> (\<exists>q. observed_phase (step service_briefing (env1, Complete ''t0'' True None)) ''t0'' = Some q
          \<and> (q = briefing \<or> spec_edge briefing (op_event (Complete ''t0'' True None)) q
              \<or> briefing = awaiting_agents \<and> is_complete (Complete ''t0'' True None)
                  \<and> (q = completed \<or> q = failed)))
   \<and> observed_phase (snd (join_transfer_room service_briefing env1 ''t0'' ''op-C'' ''agent'')) ''t0''
       = Some briefing"
proof -
  have tr: "tracked service_briefing ''t0''"
    by (simp add: tracked_def service_briefing_def service_defs livekit_defs sample_defs Let_def)
  have ob: "observed_phase service_briefing ''t0'' = Some briefing"
    by (simp add: observe_defs service_briefing_entry)
  from phase_moves_forward[OF tr ob, where xs = "[(env1, Join ''t0'' ''op-C'' ''agent''),
      (env1, Complete ''t0'' True None)]" and env = env1 and oper = "Complete ''t0'' True None"
      and a = "''op-C''" and r = "''agent''"]
  show ?thesis using tr ob by blast
qed

section \<open>The participants of a transfer\<close>

lemma joiners_Cons: "joiners tid ((env, oper) # xs) = joiners tid [(env, oper)] \<union> joiners tid xs"
  by (cases oper) simp_all

lemma step_participants:
  assumes "active_transfers (step st (env, oper)) tid = Some t'"
  shows "\<exists>t. active_transfers st tid = Some t
           \<and> participant_ids t' \<subseteq> participant_ids t \<union> joiners tid [(env, oper)]"
proof (cases "op_transfer oper = tid")
  case False
  from step_other[OF False, of st env] assms have "active_transfers st tid = Some t'" by simp
  then show ?thesis by blast
next
  case True
  show ?thesis
  proof (cases "active_transfers st tid")
    case None
    with True have "step st (env, oper) = st" by (simp add: step_unknown)
    with None assms show ?thesis by simp
  next
    case (Some t)
    show ?thesis
    proof (cases oper)
      case (Join tid' a r)
      with True have st': "step st (env, oper) = snd (join_transfer_room st env tid a r)"
        and js: "joiners tid [(env, oper)] = {a}" by simp_all
      from join_entry[OF Some, of env a r] obtain t'' where
        j: "active_transfers (snd (join_transfer_room st env tid a r)) tid = Some t''"
           "if token_ok env
            then participants t'' = Some ((case participants t of None \<Rightarrow> Map.empty | Some p \<Rightarrow> p)
                                (a \<mapsto> \<lparr>joined_at = utcnow env, role = r\<rparr>))
            else participants t'' = participants t"
        by blast
      from assms st' j(1) have same: "t'' = t'" by simp
      have "participant_ids t'' \<subseteq> insert a (participant_ids t)"
      proof (cases "token_ok env")
        case True
        with j(2) show ?thesis by (auto simp: participant_ids_def split: option.splits)
      next
        case False
        with j(2) show ?thesis by (auto simp: participant_ids_def)
      qed
      with same js Some show ?thesis by simp
    next
      case (Complete tid' s f)
      with True have st': "step st (env, oper) = snd (complete_transfer st env tid s f)" by simp
      from complete_entry[OF Some, of env s f] assms st'
      have "t' = t\<lparr>status := ''error''\<rparr>" by auto
      then have "participant_ids t' = participant_ids t" by (simp add: participant_ids_def)
      with Some show ?thesis by simp
    next
      case (Cancel tid' reason)
      with True have st': "step st (env, oper) = snd (cancel_transfer st env None tid reason)" by simp
      from cancel_entry[OF Some, of env None reason] assms st'
      have "t' = t" by auto
      with Some show ?thesis by simp
    next
      case (Timeout tid')
      with True have st': "step st (env, oper)
          = snd (cancel_transfer st env (Some (TimeoutTask tid)) tid (Some ''timeout''))"
        by (simp add: timeout_snd)
      from cancel_entry[OF Some, of env "Some (TimeoutTask tid)" "Some ''timeout''"] assms st'
      have "t' = t" by auto
      with Some show ?thesis by simp
    qed
  qed
qed

lemma run_participants:
  "active_transfers (run st xs) tid = Some t' \<Longrightarrow>
     \<exists>t. active_transfers st tid = Some t \<and> participant_ids t' \<subseteq> participant_ids t \<union> joiners tid xs"
proof (induction xs arbitrary: st)
  case Nil
  then show ?case by simp
next
  case (Cons x xs)
  obtain env oper where x: "x = (env, oper)" by (cases x)
  from Cons.prems have "active_transfers (run (step st x) xs) tid = Some t'" by simp
  from Cons.IH[OF this] obtain t1 where
    t1: "active_transfers (step st x) tid = Some t1"
        "participant_ids t' \<subseteq> participant_ids t1 \<union> joiners tid xs" by blast
  from step_participants[of st env oper tid t1] t1(1) x obtain t where
    t: "active_transfers st tid = Some t" "participant_ids t1 \<subseteq> participant_ids t \<union> joiners tid [x]"
    by blast
  from t1(2) t(2) have "participant_ids t' \<subseteq> participant_ids t \<union> joiners tid (x # xs)"
    using joiners_Cons[of tid env oper xs] x by blast
  with t(1) show ?case by blast
qed

lemma join_adds_participant:
  assumes "active_transfers st tid = Some t" and "token_ok env"
  shows "\<exists>t'. active_transfers (snd (join_transfer_room st env tid a r)) tid = Some t'
           \<and> participant_ids t' = insert a (participant_ids t)"
proof -
  from join_entry[OF assms(1), of env a r] assms(2) obtain t' where
    t': "active_transfers (snd (join_transfer_room st env tid a r)) tid = Some t'"
        "participants t' = Some ((case participants t of None \<Rightarrow> Map.empty | Some p \<Rightarrow> p)
                                (a \<mapsto> \<lparr>joined_at = utcnow env, role = r\<rparr>))"
    by auto
  from t'(2) have "participant_ids t' = insert a (participant_ids t)"
    by (simp add: participant_ids_def split: option.splits)
  with t'(1) show ?thesis by blast
qed

text \<open>
  Claim C6, as stated, fails.  \<^verbatim>\<open>join_transfer_room\<close> does not compare the joining identifier
  with the two agents of the transfer: after \<open>op-A\<close>, \<open>op-B\<close> and a third agent \<open>op-C\<close> have
  joined transfer \<open>t0\<close>, its participants are all three.
\<close>

theorem join_admits_third_operator:
  "source_agent_id transfer_t0 = ''op-A'' \<and> target_agent_id transfer_t0 = ''op-B''
   \<and> map_option participant_ids
        (active_transfers
           (run service_ai [(env1, Join ''t0'' ''op-A'' ''agent''),
                            (env1, Join ''t0'' ''op-B'' ''agent''),
                            (env1, Join ''t0'' ''op-C'' ''agent'')]) ''t0'')
       = Some {''op-A'', ''op-B'', ''op-C''}"
  by (simp add: participant_ids_def service_defs livekit_defs sample_defs Let_def insert_commute)

text \<open>
  Claim C6, amended.  A join whose access token is issued records the joining identifier,
  whichever it is, among the participants of the transfer and changes no other entry of
  that dict; and after any sequence of operations the participants of a transfer that is
  still live are among those it had before and the identifiers that the joins of the
  sequence passed for it.  So the dict holds at most the two agents of the transfer as
  long as nobody else joins.
\<close>

theorem participants_are_joiners:
  assumes "active_transfers st tid = Some t"
  shows "(token_ok env \<longrightarrow>
            (\<exists>t'. active_transfers (snd (join_transfer_room st env tid a r)) tid = Some t'
               \<and> participant_ids t' = insert a (participant_ids t)))
         \<and> (\<forall>t'. active_transfers (run st xs) tid = Some t' \<longrightarrow>
               participant_ids t' \<subseteq> participant_ids t \<union> joiners tid xs)"
proof (intro conjI impI allI)
  assume "token_ok env"
  with assms show "\<exists>t'. active_transfers (snd (join_transfer_room st env tid a r)) tid = Some t'
               \<and> participant_ids t' = insert a (participant_ids t)"
    by (rule join_adds_participant)
next
  fix t' assume "active_transfers (run st xs) tid = Some t'"
  from run_participants[OF this] assms
  show "participant_ids t' \<subseteq> participant_ids t \<union> joiners tid xs" by auto
qed

text \<open>
  A join of transfer \<open>t0\<close> by \<open>op-C\<close>, who is neither its source nor its target.
\<close>

theorem participants_are_joiners_witness:
  "active_transfers service_live ''t0'' = Some transfer_t0 \<and> token_ok env0
   \<and> (\<exists>t'. active_transfers (snd (join_transfer_room service_live env0 ''t0'' ''op-C'' ''agent'')) ''t0''
             = Some t'
          \<and> participant_ids t' = insert ''op-C'' (participant_ids transfer_t0))
   \<and> active_transfers (run service_live [(env0, Join ''t0'' ''op-C'' ''agent'')]) ''t0''
       = Some (transfer_t0\<lparr>participants :=
                 Some [''op-C'' \<mapsto> \<lparr>joined_at = 100, role = ''agent''\<rparr>]\<rparr>)
   \<and> participant_ids (transfer_t0\<lparr>participants :=
                 Some [''op-C'' \<mapsto> \<lparr>joined_at = 100, role = ''agent''\<rparr>]\<rparr>)
       \<subseteq> participant_ids transfer_t0 \<union> joiners ''t0'' [(env0, Join ''t0'' ''op-C'' ''agent'')]"
proof -
  have l: "active_transfers service_live ''t0'' = Some transfer_t0"
    by (simp add: sample_defs)
  have k: "token_ok env0" by (simp add: env0_def)
  have r: "active_transfers (run service_live [(env0, Join ''t0'' ''op-C'' ''agent'')]) ''t0''
       = Some (transfer_t0\<lparr>participants :=
                 Some [''op-C'' \<mapsto> \<lparr>joined_at = 100, role = ''agent''\<rparr>]\<rparr>)"
    by (simp add: service_defs livekit_defs sample_defs Let_def)
  from participants_are_joiners[OF l, where env = env0 and a = "''op-C''" and r = "''agent''"
      and xs = "[(env0, Join ''t0'' ''op-C'' ''agent'')]"] k r
  show ?thesis using l by blast
qed

section \<open>Reaching a terminal phase\<close>

text \<open>
  Claim C3.  The claim is that every way into a terminal phase deletes the briefing room
  and removes the entry.  Evaluated on transfer \<open>t0\<close> in briefing with both agents present,
  \<^verbatim>\<open>complete_transfer\<close> with \<^verbatim>\<open>success=False\<close> returns the status \<^verbatim>\<open>failed\<close> and removes the entry,
  but sends no request to LiveKit and leaves the transfer room among the active rooms;
  \<^verbatim>\<open>cancel_transfer\<close> in the same state does delete it.
\<close>

theorem failed_transfer_keeps_room:
  "observed_phase service_briefing ''t0'' = Some briefing
   \<and> fst (complete_transfer service_briefing env1 ''t0'' False None) =
       Inr \<lparr>cr_transfer_id = ''t0'', cr_status = ''failed'', cr_success = False, cr_duration = None\<rparr>
   \<and> active_transfers (snd (complete_transfer service_briefing env1 ''t0'' False None)) ''t0'' = None
   \<and> active_rooms (livekit (snd (complete_transfer service_briefing env1 ''t0'' False None)))
        ''transfer_t0_000000'' \<noteq> None
   \<and> api_log (livekit (snd (complete_transfer service_briefing env1 ''t0'' False None)))
        = api_log (livekit service_briefing)
   \<and> active_rooms (livekit (snd (cancel_transfer service_briefing env1 None ''t0'' None)))
        ''transfer_t0_000000'' = None"
  by (simp add: service_briefing_def observe_defs service_defs livekit_defs sample_defs Let_def)

text \<open>
  Claim C7.  The claim is that after a successful completion the target agent holds a
  credential for the original room.  Evaluated on transfer \<open>t0\<close> in briefing with every
  LiveKit request answering: inside \<^verbatim>\<open>complete_warm_transfer\<close> the call of
  \<^verbatim>\<open>add_participant_to_room\<close> returns a token for \<open>op-B\<close> in \<open>room_c1\<close>, but the result of
  that call is bound to nothing, and the answer of \<^verbatim>\<open>complete_transfer\<close> has the four fields
  shown and no token.  The rest holds: \<open>op-B\<close> is recorded in the original room, \<open>op-A\<close> is
  not, and the transfer room is gone.
\<close>

theorem complete_drops_credential:
  "fst (complete_transfer service_briefing env1 ''t0'' True None) =
       Inr \<lparr>cr_transfer_id = ''t0'', cr_status = ''completed'', cr_success = True,
            cr_duration = Some 60\<rparr>
   \<and> fst (add_participant_to_room (livekit service_briefing) env1 ''room_c1'' ''op-B'' None ''agent'') =
       Inr \<lparr>access_token = AccessToken ''room_c1'' ''op-B'' ''op-B'', room_name = ''room_c1'',
            participant_identity = ''op-B'', info_role = ''agent''\<rparr>
   \<and> map_option (\<lambda>r. (room_participants r ''op-A'' = None, room_participants r ''op-B'' \<noteq> None))
        (active_rooms (livekit (snd (complete_transfer service_briefing env1 ''t0'' True None))) ''room_c1'')
       = Some (True, True)
   \<and> active_rooms (livekit (snd (complete_transfer service_briefing env1 ''t0'' True None)))
        ''transfer_t0_000000'' = None"
  by (simp add: service_briefing_def service_defs livekit_defs sample_defs Let_def)

section \<open>The timeout task\<close>

lemma handle_transfer_timeout_gone:
  "active_transfers st tid = None \<Longrightarrow> handle_transfer_timeout st env tid = (Inr (), st)"
  by (simp add: handle_transfer_timeout_def)

lemma handle_transfer_timeout_armed:
  assumes "active_transfers st tid = Some t" and "transfer_timeouts st tid = Some (TimeoutTask tid)"
  shows "fst (handle_transfer_timeout st env tid) = Inl CancelledError
         \<and> active_transfers (snd (handle_transfer_timeout st env tid)) tid = Some t
         \<and> active_rooms (livekit (snd (handle_transfer_timeout st env tid))) = active_rooms (livekit st)"
  using assms by (simp add: handle_transfer_timeout_def cancel_transfer_def Let_def)

text \<open>
  Claim C9.  The claim is that the timer firing on a live transfer has the effect of
  \<^verbatim>\<open>cancel_transfer\<close> with the reason \<^verbatim>\<open>timeout\<close>.  Evaluated on transfer \<open>t0\<close> with the timer
  that \<^verbatim>\<open>initiate_warm_transfer\<close> registers: the timeout task calls \<^verbatim>\<open>cancel_transfer\<close>, which
  cancels the task it is running in, and the task ends with \<^verbatim>\<open>CancelledError\<close>; the transfer
  is still live and awaiting_agents and its room is still active.  The same call from a
  request handler cancels the transfer, removes it and deletes the room.
\<close>

theorem timeout_cancels_itself:
  "transfer_timeouts service_live ''t0'' = Some (TimeoutTask ''t0'')
   \<and> fst (handle_transfer_timeout service_live env0 ''t0'') = Inl CancelledError
   \<and> active_transfers (snd (handle_transfer_timeout service_live env0 ''t0'')) ''t0'' = Some transfer_t0
   \<and> observed_phase (snd (handle_transfer_timeout service_live env0 ''t0'')) ''t0'' = Some awaiting_agents
   \<and> active_rooms (livekit (snd (handle_transfer_timeout service_live env0 ''t0'')))
        ''transfer_t0_000000'' \<noteq> None
   \<and> fst (cancel_transfer service_live env0 None ''t0'' (Some ''timeout'')) =
       Inr \<lparr>xr_transfer_id = ''t0'', xr_status = ''cancelled'', xr_reason = Some ''timeout''\<rparr>
   \<and> active_transfers (snd (cancel_transfer service_live env0 None ''t0'' (Some ''timeout''))) ''t0'' = None
   \<and> observed_phase (snd (cancel_transfer service_live env0 None ''t0'' (Some ''timeout''))) ''t0''
       = Some cancelled
   \<and> active_rooms (livekit (snd (cancel_transfer service_live env0 None ''t0'' (Some ''timeout''))))
        ''transfer_t0_000000'' = None"
  by (simp add: observe_defs service_defs livekit_defs sample_defs Let_def)

end
